theory Spec2Isabelle
  imports Complex_Main "HOL-Library.Word" "HOL-Library.Multiset"
begin

section \<open>Sculpt automasking and the sculpt attribute store\<close>

text \<open>
  A shallow embedding of \<^verbatim>\<open>source/blender/editors/sculpt_paint/sculpt_automasking.cc\<close>
  and of the attribute functions at the end of
  \<^verbatim>\<open>source/blender/blenkernel/intern/paint.cc\<close>.

  Conventions.
  \<^item> A C \<^verbatim>\<open>float\<close> is a \<open>real\<close>: rounding, infinities and NaN are outside the model.
    Where the source divides by a value that may be zero, the theorems below carry the
    hypothesis that it is not.
  \<^item> A vertex is its index (\<^verbatim>\<open>PBVHVertRef\<close> of the mesh backend).
  \<^item> A null pointer is \<open>None\<close>; a read through a null attribute or past the end of a
    buffer is the result \<open>None\<close> of the function that does it.
  \<^item> Functions of other files (mesh accessors, face sets, boundaries, islands, occlusion,
    curve evaluation, hashing, the flood fill engine) are fields of the records
    \<open>mesh_env\<close>, \<open>curve_mapping\<close> and \<open>hash_env\<close>, or arguments.
\<close>

subsection \<open>Vectors\<close>

type_synonym float3 = "real \<times> real \<times> real"

definition zero_v3 :: float3 where
  "zero_v3 = (0, 0, 0)"

fun add_v3 :: "float3 \<Rightarrow> float3 \<Rightarrow> float3" where
  "add_v3 (a1, a2, a3) (b1, b2, b3) = (a1 + b1, a2 + b2, a3 + b3)"

fun sub_v3 :: "float3 \<Rightarrow> float3 \<Rightarrow> float3" where
  "sub_v3 (a1, a2, a3) (b1, b2, b3) = (a1 - b1, a2 - b2, a3 - b3)"

fun div_v3 :: "float3 \<Rightarrow> real \<Rightarrow> float3" where
  "div_v3 (a1, a2, a3) d = (a1 / d, a2 / d, a3 / d)"

fun dot_v3v3 :: "float3 \<Rightarrow> float3 \<Rightarrow> real" where
  "dot_v3v3 (a1, a2, a3) (b1, b2, b3) = a1 * b1 + a2 * b2 + a3 * b3"

definition len_v3v3 :: "float3 \<Rightarrow> float3 \<Rightarrow> real" where
  "len_v3v3 a b = sqrt (dot_v3v3 (sub_v3 a b) (sub_v3 a b))"

subsection \<open>Flags, brushes and tool settings\<close>

text \<open>
  \<^verbatim>\<open>eAutomasking_flag\<close> (DNA, not among the sources): every constant the code names is
  one bit of an \<^verbatim>\<open>int\<close>, and \<^verbatim>\<open>BRUSH_AUTOMASKING_CAVITY_ALL\<close> is the two cavity bits.
  A flag word is the set of its bits: \<^verbatim>\<open>a | b\<close> is \<open>a \<union> b\<close>, \<^verbatim>\<open>a & ~m\<close> is \<open>a - m\<close>, and
  the test \<^verbatim>\<open>a & m\<close> is \<open>a \<inter> m \<noteq> {}\<close>.
\<close>

datatype automasking_flag =
    BRUSH_AUTOMASKING_TOPOLOGY
  | BRUSH_AUTOMASKING_FACE_SETS
  | BRUSH_AUTOMASKING_BOUNDARY_EDGES
  | BRUSH_AUTOMASKING_BOUNDARY_FACE_SETS
  | BRUSH_AUTOMASKING_CAVITY_NORMAL
  | BRUSH_AUTOMASKING_CAVITY_INVERTED
  | BRUSH_AUTOMASKING_CAVITY_USE_CURVE
  | BRUSH_AUTOMASKING_BRUSH_NORMAL
  | BRUSH_AUTOMASKING_VIEW_NORMAL
  | BRUSH_AUTOMASKING_VIEW_OCCLUSION

type_synonym automasking_flags = "automasking_flag set"

definition BRUSH_AUTOMASKING_CAVITY_ALL :: automasking_flags where
  "BRUSH_AUTOMASKING_CAVITY_ALL = {BRUSH_AUTOMASKING_CAVITY_NORMAL, BRUSH_AUTOMASKING_CAVITY_INVERTED}"

definition flag_test :: "automasking_flags \<Rightarrow> automasking_flags \<Rightarrow> bool" where
  "flag_test a m = (a \<inter> m \<noteq> {})"

datatype falloff_shape = PAINT_FALLOFF_SHAPE_SPHERE | PAINT_FALLOFF_SHAPE_TUBE

text \<open>The brush types the two files name; every other type is \<open>SCULPT_BRUSH_TYPE_OTHER\<close>.\<close>

datatype sculpt_brush_type =
    SCULPT_BRUSH_TYPE_GRAB
  | SCULPT_BRUSH_TYPE_THUMB
  | SCULPT_BRUSH_TYPE_ROTATE
  | SCULPT_BRUSH_TYPE_PAINT
  | SCULPT_BRUSH_TYPE_SMEAR
  | SCULPT_BRUSH_TYPE_MASK
  | SCULPT_BRUSH_TYPE_DRAW_FACE_SETS
  | SCULPT_BRUSH_TYPE_OTHER nat

text \<open>
  \<^verbatim>\<open>CurveMapping\<close>: the control points of \<^verbatim>\<open>cm->curve[0 .. totpoint)\<close> that
  \<^verbatim>\<open>settings_hash\<close> reads (\<open>x\<close>, \<open>y\<close>, \<open>flag\<close>, \<open>shorty\<close>), and
  \<^verbatim>\<open>BKE_curvemapping_evaluateF(curve, 0, _)\<close> as the field \<open>cm_evaluateF\<close>.
\<close>

record curve_point =
  cp_x :: real
  cp_y :: real
  cp_flag :: "32 word"
  cp_shorty :: "32 word"

record curve_mapping =
  cm_curve :: "curve_point list"
  cm_evaluateF :: "real \<Rightarrow> real"

record brush =
  br_automasking_flags :: automasking_flags
  br_falloff_shape :: falloff_shape
  br_sculpt_brush_type :: sculpt_brush_type
  br_automasking_boundary_edges_propagation_steps :: int
  br_automasking_view_normal_limit :: real
  br_automasking_view_normal_falloff :: real
  br_automasking_start_normal_limit :: real
  br_automasking_start_normal_falloff :: real
  br_automasking_cavity_curve :: "curve_mapping option"
  br_automasking_cavity_factor :: real
  br_automasking_cavity_blur_steps :: int

text \<open>\<^verbatim>\<open>Sculpt\<close>, the tool settings; \<open>sd_paint_brush\<close> is \<^verbatim>\<open>BKE_paint_brush_for_read(&sd.paint)\<close>.\<close>

record sculpt =
  sd_automasking_flags :: automasking_flags
  sd_automasking_boundary_edges_propagation_steps :: int
  sd_automasking_view_normal_limit :: real
  sd_automasking_view_normal_falloff :: real
  sd_automasking_start_normal_limit :: real
  sd_automasking_start_normal_falloff :: real
  sd_automasking_cavity_curve :: "curve_mapping option"
  sd_automasking_cavity_factor :: real
  sd_automasking_cavity_blur_steps :: int
  sd_paint_brush :: "brush option"

subsection \<open>The session and the mesh\<close>

record stroke_cache =
  sc_radius :: real
  sc_brush :: "brush option"
  sc_paint_face_set :: int
  sc_initial_normal_symm :: float3
  sc_view_normal_symm :: float3

record filter_cache =
  fc_initial_normal :: float3
  fc_view_normal :: float3

text \<open>
  The part of \<^verbatim>\<open>SculptSession\<close> the automasking code reads and writes. Each of the four
  \<^verbatim>\<open>ss.attrs.automasking_*\<close> pointers is the attribute's buffer (\<open>None\<close>: null pointer).
\<close>

record sculpt_session =
  ss_cache :: "stroke_cache option"
  ss_filter_cache :: "filter_cache option"
  ss_stroke_id :: "8 word"
  ss_last_automask_stroke_id :: "8 word"
  ss_last_automasking_settings_hash :: "32 word"
  ss_active_vert_index :: int
  attrs_automasking_factor :: "real list option"
  attrs_automasking_occlusion :: "8 word list option"
  attrs_automasking_stroke_id :: "8 word list option"
  attrs_automasking_cavity :: "real list option"

text \<open>
  What the code asks of the mesh and of its collaborators, per vertex:
  \<^verbatim>\<open>SCULPT_vertex_count_get\<close>, \<^verbatim>\<open>SCULPT_vertex_co_get\<close>, \<^verbatim>\<open>SCULPT_vertex_normal_get\<close>,
  \<^verbatim>\<open>SCULPT_VERTEX_NEIGHBORS_ITER\<close>, \<^verbatim>\<open>boundary::vert_is_boundary\<close>,
  \<^verbatim>\<open>face_set::vert_has_face_set\<close>, \<^verbatim>\<open>face_set::vert_has_unique_face_set\<close>,
  \<^verbatim>\<open>face_set::vert_face_set_get\<close>, \<^verbatim>\<open>face_set::active_face_set_get\<close>,
  \<^verbatim>\<open>islands::vert_id_get\<close>, \<^verbatim>\<open>SCULPT_vertex_is_occluded\<close>,
  \<^verbatim>\<open>dyntopo::stroke_is_dyntopo\<close>, and
  \<^verbatim>\<open>SCULPT_is_vertex_inside_brush_radius_symm(co, location, radius, symm)\<close> with the
  object's symmetry flags.
\<close>

record mesh_env =
  vert_count :: nat
  vert_co :: "nat \<Rightarrow> float3"
  vert_normal :: "nat \<Rightarrow> float3"
  vert_neighbors :: "nat \<Rightarrow> nat list"
  vert_is_boundary :: "nat \<Rightarrow> bool"
  vert_has_face_set :: "nat \<Rightarrow> int \<Rightarrow> bool"
  vert_has_unique_face_set :: "nat \<Rightarrow> bool"
  vert_face_set_get :: "nat \<Rightarrow> int"
  active_face_set_get :: int
  vert_island_id :: "nat \<Rightarrow> int"
  vert_is_occluded :: "nat \<Rightarrow> bool"
  stroke_is_dyntopo :: bool
  is_vertex_inside_brush_radius_symm :: "float3 \<Rightarrow> float3 \<Rightarrow> real \<Rightarrow> bool"

subsection \<open>Enabled modes\<close>



definition cavity_bits :: automasking_flags where
  "cavity_bits = BRUSH_AUTOMASKING_CAVITY_ALL \<union> {BRUSH_AUTOMASKING_CAVITY_USE_CURVE}
                   \<union> {BRUSH_AUTOMASKING_CAVITY_NORMAL}"

definition calc_effective_bits :: "sculpt \<Rightarrow> brush option \<Rightarrow> automasking_flags" where
  "calc_effective_bits sd br =
     (case br of
        Some b \<Rightarrow>
          (let flags = sd_automasking_flags sd \<union> br_automasking_flags b
           in if flag_test (br_automasking_flags b) BRUSH_AUTOMASKING_CAVITY_ALL
              then (flags - cavity_bits) \<union> br_automasking_flags b
              else if flag_test (sd_automasking_flags sd) BRUSH_AUTOMASKING_CAVITY_ALL
              then (flags - cavity_bits) \<union> sd_automasking_flags sd
              else flags)
      | None \<Rightarrow> sd_automasking_flags sd)"

definition is_constrained_by_radius :: "brush option \<Rightarrow> bool" where
  "is_constrained_by_radius br =
     (case br of
        None \<Rightarrow> False
      | Some b \<Rightarrow>
          if br_falloff_shape b = PAINT_FALLOFF_SHAPE_TUBE then False
          else if br_sculpt_brush_type b \<in>
                    {SCULPT_BRUSH_TYPE_GRAB, SCULPT_BRUSH_TYPE_THUMB, SCULPT_BRUSH_TYPE_ROTATE}
          then True
          else False)"

definition boundary_propagation_steps :: "sculpt \<Rightarrow> brush option \<Rightarrow> int" where
  "boundary_propagation_steps sd br =
     (case br of
        Some b \<Rightarrow>
          if flag_test (br_automasking_flags b)
               {BRUSH_AUTOMASKING_BOUNDARY_EDGES, BRUSH_AUTOMASKING_BOUNDARY_FACE_SETS}
          then br_automasking_boundary_edges_propagation_steps b
          else sd_automasking_boundary_edges_propagation_steps sd
      | None \<Rightarrow> sd_automasking_boundary_edges_propagation_steps sd)"


subsection \<open>Topology flood fill: the traversal predicate\<close>

text \<open>\<^verbatim>\<open>std::numeric_limits<float>::max()\<close>.\<close>

definition FLT_MAX :: real where
  "FLT_MAX = (2 ^ 24 - 1) * 2 ^ 104"

text \<open>
  The value the lambda of \<^verbatim>\<open>fill_topology_automasking_factors_mesh\<close> returns for the
  candidate \<open>to_v\<close>: \<^verbatim>\<open>use_radius || SCULPT_is_vertex_inside_brush_radius_symm(...)\<close>, with
  \<open>radius\<close>, \<open>use_radius\<close> and \<open>location\<close> as the function computes them before the fill.
\<close>

definition fill_topology_radius :: "sculpt_session \<Rightarrow> real" where
  "fill_topology_radius ss = (case ss_cache ss of Some c \<Rightarrow> sc_radius c | None \<Rightarrow> FLT_MAX)"

definition fill_topology_use_radius :: "sculpt \<Rightarrow> sculpt_session \<Rightarrow> bool" where
  "fill_topology_use_radius sd ss =
     (ss_cache ss \<noteq> None \<and> is_constrained_by_radius (sd_paint_brush sd))"

definition fill_topology_accept :: "mesh_env \<Rightarrow> sculpt \<Rightarrow> sculpt_session \<Rightarrow> nat \<Rightarrow> nat \<Rightarrow> bool" where
  "fill_topology_accept env sd ss active_vert to_v =
     (let radius = fill_topology_radius ss;
          use_radius = fill_topology_use_radius sd ss;
          location = vert_co env active_vert
      in use_radius \<or>
         is_vertex_inside_brush_radius_symm env (vert_co env to_v) location radius)"

subsection \<open>The automasking cache\<close>

text \<open>
  \<^verbatim>\<open>auto_mask::Cache\<close> and its \<^verbatim>\<open>settings\<close>, with the fields the file reads and writes.
  \<^verbatim>\<open>std::make_unique<Cache>()\<close> value-initialises the object: \<open>cache_zero\<close>.
\<close>

record automasking_settings =
  flags :: automasking_flags
  initial_face_set :: int
  initial_island_nr :: int
  cavity_factor :: real
  cavity_blur_steps :: int
  cavity_curve :: "curve_mapping option"
  start_normal_limit :: real
  start_normal_falloff :: real
  view_normal_limit :: real
  view_normal_falloff :: real
  topology_use_brush_limit :: bool

record cache =
  settings :: automasking_settings
  can_reuse_mask :: bool
  current_stroke_id :: "8 word"

definition cache_zero :: cache where
  "cache_zero =
     \<lparr>settings = \<lparr>flags = {}, initial_face_set = 0, initial_island_nr = 0, cavity_factor = 0,
                   cavity_blur_steps = 0, cavity_curve = None, start_normal_limit = 0,
                   start_normal_falloff = 0, view_normal_limit = 0, view_normal_falloff = 0,
                   topology_use_brush_limit = False\<rparr>,
      can_reuse_mask = False, current_stroke_id = 0\<rparr>"

subsection \<open>Attribute buffers\<close>

text \<open>
  \<^verbatim>\<open>*(T *)SCULPT_vertex_attr_get(vertex, attr)\<close>, read and written. \<open>None\<close> is the fault
  of a null attribute or of an index past the buffer.
\<close>

definition attr_get :: "'a list option \<Rightarrow> nat \<Rightarrow> 'a option" where
  "attr_get attr v =
     (case attr of
        None \<Rightarrow> None
      | Some buf \<Rightarrow> if v < length buf then Some (buf ! v) else None)"

definition attr_set :: "'a list option \<Rightarrow> nat \<Rightarrow> 'a \<Rightarrow> 'a list option" where
  "attr_set attr v x =
     (case attr of
        None \<Rightarrow> None
      | Some buf \<Rightarrow> if v < length buf then Some (buf[v := x]) else None)"

subsection \<open>Normal falloff\<close>

text \<open>\<^verbatim>\<open>safe_acosf\<close> of \<^verbatim>\<open>BLI_math_base_safe.h\<close>: the arc cosine of the argument clamped to \<open>[-1, 1]\<close>.\<close>

definition safe_acosf :: "real \<Rightarrow> real" where
  "safe_acosf a = (if a \<le> -1 then pi else if a \<ge> 1 then 0 else arccos a)"

definition normal_calc :: "mesh_env \<Rightarrow> nat \<Rightarrow> float3 \<Rightarrow> real \<Rightarrow> real \<Rightarrow> float3 option \<Rightarrow> real" where
  "normal_calc env vertex normal limit_lower limit_upper orig_normal =
     (let normal_v = (case orig_normal of Some n \<Rightarrow> n | None \<Rightarrow> vert_normal env vertex);
          angle = safe_acosf (dot_v3v3 normal normal_v)
      in if angle > limit_lower \<and> angle < limit_upper
         then (let t = 1 - (angle - limit_lower) / (limit_upper - limit_lower)
               in t * t * (3 - 2 * t))
         else if angle > limit_upper then 0
         else 1)"

text \<open>
  Both functions read \<^verbatim>\<open>ss.cache\<close> and, when it is null, \<^verbatim>\<open>ss.filter_cache\<close> without a
  check: with neither, the read faults.
\<close>

definition calc_brush_normal_factor ::
  "mesh_env \<Rightarrow> cache \<Rightarrow> sculpt_session \<Rightarrow> nat \<Rightarrow> float3 option \<Rightarrow> real option" where
  "calc_brush_normal_factor env automasking ss vertex orig_normal =
     (let falloff = start_normal_falloff (settings automasking) * pi in
      case (case ss_cache ss of
              Some c \<Rightarrow> Some (sc_initial_normal_symm c)
            | None \<Rightarrow> map_option fc_initial_normal (ss_filter_cache ss)) of
        None \<Rightarrow> None
      | Some initial_normal \<Rightarrow>
          Some (normal_calc env vertex initial_normal
                  (start_normal_limit (settings automasking) - falloff * 0.5)
                  (start_normal_limit (settings automasking) + falloff * 0.5)
                  orig_normal))"

definition calc_view_normal_factor ::
  "mesh_env \<Rightarrow> cache \<Rightarrow> sculpt_session \<Rightarrow> nat \<Rightarrow> float3 option \<Rightarrow> real option" where
  "calc_view_normal_factor env automasking ss vertex orig_normal =
     (let falloff = view_normal_falloff (settings automasking) * pi in
      case (case ss_cache ss of
              Some c \<Rightarrow> Some (sc_view_normal_symm c)
            | None \<Rightarrow> map_option fc_view_normal (ss_filter_cache ss)) of
        None \<Rightarrow> None
      | Some view_normal \<Rightarrow>
          Some (normal_calc env vertex view_normal
                  (view_normal_limit (settings automasking))
                  (view_normal_limit (settings automasking) + falloff)
                  orig_normal))"

subsection \<open>Occlusion and the stroke id stamp\<close>

text \<open>
  \<^verbatim>\<open>calc_view_occlusion_factor\<close>: the cached byte is 2 for an occluded vertex and 1 for a
  visible one; the result is \<^verbatim>\<open>f == 2\<close>.
\<close>

definition calc_view_occlusion_factor ::
  "mesh_env \<Rightarrow> cache \<Rightarrow> sculpt_session \<Rightarrow> nat \<Rightarrow> 8 word \<Rightarrow> (bool \<times> sculpt_session) option" where
  "calc_view_occlusion_factor env automasking ss vertex stroke_id =
     (case attr_get (attrs_automasking_occlusion ss) vertex of
        None \<Rightarrow> None
      | Some f \<Rightarrow>
          if stroke_id \<noteq> current_stroke_id automasking
          then (let f' = (if vert_is_occluded env vertex then 2 else 1) in
                case attr_set (attrs_automasking_occlusion ss) vertex f' of
                  None \<Rightarrow> None
                | Some buf \<Rightarrow> Some (f' = 2, ss\<lparr>attrs_automasking_occlusion := Some buf\<rparr>))
          else Some (f = 2, ss))"

definition automasking_factor_end ::
  "sculpt_session \<Rightarrow> cache \<Rightarrow> nat \<Rightarrow> real \<Rightarrow> (real \<times> sculpt_session) option" where
  "automasking_factor_end ss automasking vertex val =
     (if attrs_automasking_stroke_id ss \<noteq> None
      then (case attr_set (attrs_automasking_stroke_id ss) vertex (current_stroke_id automasking) of
              None \<Rightarrow> None
            | Some buf \<Rightarrow> Some (val, ss\<lparr>attrs_automasking_stroke_id := Some buf\<rparr>))
      else Some (val, ss))"

subsection \<open>Cavity\<close>

text \<open>\<^verbatim>\<open>signf\<close> and the \<^verbatim>\<open>CLAMP\<close> macro of the BLI headers.\<close>

definition signf :: "real \<Rightarrow> real" where
  "signf f = (if f < 0 then -1 else 1)"

definition CLAMP :: "real \<Rightarrow> real \<Rightarrow> real \<Rightarrow> real" where
  "CLAMP a b c = (if a < b then b else if a > c then c else a)"

text \<open>\<^verbatim>\<open>calc_cavity_factor(const Cache *automasking, float factor)\<close>.\<close>

definition calc_cavity_factor :: "cache \<Rightarrow> real \<Rightarrow> real" where
  "calc_cavity_factor automasking factor =
     (let sign = signf factor;
          factor1 = \<bar>factor\<bar> * cavity_factor (settings automasking) * 50;
          factor2 = factor1 * sign * 0.5 + 0.5;
          factor3 = CLAMP factor2 0 1
      in if BRUSH_AUTOMASKING_CAVITY_INVERTED \<in> flags (settings automasking)
         then 1 - factor3 else factor3)"

record CavityBlurVert =
  blur_vertex :: nat
  blur_dist :: real
  blur_depth :: int

text \<open>The running sums of \<^verbatim>\<open>calc_blurred_cavity\<close>.\<close>

record blur_sums =
  sno1 :: float3
  sno2 :: float3
  sco1 :: float3
  sco2 :: float3
  len1_sum :: real
  sco1_len :: int
  sco2_len :: int

definition blur_sums_zero :: blur_sums where
  "blur_sums_zero =
     \<lparr>sno1 = zero_v3, sno2 = zero_v3, sco1 = zero_v3, sco2 = zero_v3,
      len1_sum = 0, sco1_len = 0, sco2_len = 0\<rparr>"

text \<open>
  The neighbour loop of \<^verbatim>\<open>calc_blurred_cavity\<close> for the vertex \<open>v\<close> of depth \<open>d\<close>: every
  neighbour not yet in \<open>visit\<close> enters \<open>visit\<close> and is put at the end of the queue. The
  source's queue is a ring buffer (\<open>queue\<close>, \<open>start\<close>, \<open>end\<close>) that doubles when full;
  here it is the list of its pending entries, from \<open>start\<close> to \<open>end\<close>.
\<close>

fun blur_push ::
  "mesh_env \<Rightarrow> nat \<Rightarrow> int \<Rightarrow> nat list \<Rightarrow> CavityBlurVert list \<times> nat set
     \<Rightarrow> CavityBlurVert list \<times> nat set" where
  "blur_push env v d [] (queue, visit) = (queue, visit)"
| "blur_push env v d (v2 # ns) (queue, visit) =
     (if v2 \<in> visit then blur_push env v d ns (queue, visit)
      else blur_push env v d ns
             (queue @ [\<lparr>blur_vertex = v2, blur_dist = len_v3v3 (vert_co env v2) (vert_co env v),
                        blur_depth = d + 1\<rparr>],
              insert v2 visit))"

definition blur_accumulate :: "mesh_env \<Rightarrow> int \<Rightarrow> float3 \<Rightarrow> CavityBlurVert \<Rightarrow> blur_sums \<Rightarrow> blur_sums" where
  "blur_accumulate env steps co1 blurvert acc =
     (let co = vert_co env (blur_vertex blurvert);
          no = vert_normal env (blur_vertex blurvert);
          centdist = len_v3v3 co co1;
          acc1 = acc\<lparr>sco1 := add_v3 (sco1 acc) co, sno1 := add_v3 (sno1 acc) no,
                     len1_sum := len1_sum acc + centdist, sco1_len := sco1_len acc + 1\<rparr>
      in if blur_depth blurvert < steps
         then acc1\<lparr>sco2 := add_v3 (sco2 acc1) co, sno2 := add_v3 (sno2 acc1) no,
                    sco2_len := sco2_len acc1 + 1\<rparr>
         else acc1)"

lemma blur_push_queue:
  "\<exists>new. fst (blur_push env v d ns (queue, visit)) = queue @ new \<and> (\<forall>e \<in> set new. blur_depth e = d + 1)"
proof (induction ns arbitrary: queue visit)
  case Nil
  then show ?case by simp
next
  case (Cons v2 ns)
  show ?case
  proof (cases "v2 \<in> visit")
    case True
    then show ?thesis using Cons.IH [of queue visit] by simp
  next
    case False
    let ?e = "\<lparr>blur_vertex = v2, blur_dist = len_v3v3 (vert_co env v2) (vert_co env v), blur_depth = d + 1\<rparr>"
    obtain new where
      n: "fst (blur_push env v d ns (queue @ [?e], insert v2 visit)) = (queue @ [?e]) @ new"
         "\<forall>e \<in> set new. blur_depth e = d + 1"
      using Cons.IH [of "queue @ [?e]" "insert v2 visit"] by blast
    have "fst (blur_push env v d (v2 # ns) (queue, visit)) = queue @ (?e # new)"
      using False n(1) by simp
    moreover have "\<forall>e \<in> set (?e # new). blur_depth e = d + 1"
      using n(2) by simp
    ultimately show ?thesis by blast
  qed
qed

lemma blur_weight_pop:
  "(mset (map w queue), mset (map w (b # queue))) \<in> mult {(x :: nat, y). x < y}"
proof -
  have "(mset (map w queue) + {#}, mset (map w queue) + {#w b#}) \<in> mult {(x :: nat, y). x < y}"
    by (rule one_step_implies_mult) simp_all
  then show ?thesis by simp
qed

lemma blur_weight_push:
  assumes "\<forall>e \<in> set new. w e < w b"
  shows "(mset (map w (queue @ new)), mset (map w (b # queue))) \<in> mult {(x :: nat, y). x < y}"
proof -
  have "\<forall>k \<in> set_mset (mset (map w new)). \<exists>j \<in> set_mset {#w b#}. (k, j) \<in> {(x, y). x < y}"
    using assms by auto
  then have "(mset (map w queue) + mset (map w new), mset (map w queue) + {#w b#})
               \<in> mult {(x :: nat, y). x < y}"
    by (intro one_step_implies_mult) simp_all
  then show ?thesis by simp
qed

text \<open>The \<^verbatim>\<open>while (start != end)\<close> loop of \<^verbatim>\<open>calc_blurred_cavity\<close>.\<close>

function cavity_blur_loop ::
  "mesh_env \<Rightarrow> int \<Rightarrow> float3 \<Rightarrow> CavityBlurVert list \<Rightarrow> nat set \<Rightarrow> blur_sums \<Rightarrow> blur_sums" where
  "cavity_blur_loop env steps co1 [] visit acc = acc"
| "cavity_blur_loop env steps co1 (blurvert # queue) visit acc =
     (if blur_depth blurvert \<ge> steps
      then cavity_blur_loop env steps co1 queue visit (blur_accumulate env steps co1 blurvert acc)
      else cavity_blur_loop env steps co1
             (fst (blur_push env (blur_vertex blurvert) (blur_depth blurvert)
                     (vert_neighbors env (blur_vertex blurvert)) (queue, visit)))
             (snd (blur_push env (blur_vertex blurvert) (blur_depth blurvert)
                     (vert_neighbors env (blur_vertex blurvert)) (queue, visit)))
             (blur_accumulate env steps co1 blurvert acc))"
  by pat_completeness auto
termination
proof (relation "inv_image (mult {(x :: nat, y). x < y})
                   (\<lambda>(env, steps, co1, queue, visit, acc).
                      mset (map (\<lambda>e. nat (steps - blur_depth e)) queue))", goal_cases)
  case 1
  show ?case by (intro wf_inv_image wf_mult wf_less)
next
  case (2 env steps co1 blurvert queue visit acc)
  show ?case using blur_weight_pop [of "\<lambda>e. nat (steps - blur_depth e)" queue blurvert] by simp
next
  case (3 env steps co1 blurvert queue visit acc)
  obtain new where new:
    "fst (blur_push env (blur_vertex blurvert) (blur_depth blurvert)
            (vert_neighbors env (blur_vertex blurvert)) (queue, visit)) = queue @ new"
    "\<forall>e \<in> set new. blur_depth e = blur_depth blurvert + 1"
    using blur_push_queue by blast
  have "\<forall>e \<in> set new. nat (steps - blur_depth e) < nat (steps - blur_depth blurvert)"
    using new(2) 3 by auto
  then show ?case
    using blur_weight_push [of new "\<lambda>e. nat (steps - blur_depth e)" blurvert queue] new(1)
    by simp
qed

text \<open>\<^verbatim>\<open>normalize_v3\<close> of the BLI vector library: a vector too short to normalise becomes zero.\<close>

definition normalize_v3 :: "float3 \<Rightarrow> float3" where
  "normalize_v3 a =
     (let d = dot_v3v3 a a
      in if d > 1 / 10 ^ 35 then div_v3 a (sqrt d) else zero_v3)"

text \<open>
  The sums of \<^verbatim>\<open>calc_blurred_cavity\<close> when its loop ends: \<open>steps\<close> is the argument, which the
  function increments before the loop.
\<close>

definition cavity_blur_gather :: "mesh_env \<Rightarrow> int \<Rightarrow> nat \<Rightarrow> blur_sums" where
  "cavity_blur_gather env steps vertex0 =
     cavity_blur_loop env (steps + 1) (vert_co env vertex0)
       [\<lparr>blur_vertex = vertex0, blur_dist = 0, blur_depth = 0\<rparr>] {vertex0} blur_sums_zero"

text \<open>
  The centroids, normals, displacement and mean distance the function derives from the
  sums, named as in the source.
\<close>

definition blur_sco1 :: "mesh_env \<Rightarrow> nat \<Rightarrow> blur_sums \<Rightarrow> float3" where
  "blur_sco1 env vertex0 s =
     (if sco1_len s = 0 then vert_co env vertex0 else div_v3 (sco1 s) (real_of_int (sco1_len s)))"

definition blur_len1_sum :: "blur_sums \<Rightarrow> real" where
  "blur_len1_sum s =
     (if sco1_len s = 0 then len1_sum s else len1_sum s / real_of_int (sco1_len s))"

definition blur_sco2 :: "mesh_env \<Rightarrow> nat \<Rightarrow> blur_sums \<Rightarrow> float3" where
  "blur_sco2 env vertex0 s =
     (if sco2_len s = 0 then vert_co env vertex0 else div_v3 (sco2 s) (real_of_int (sco2_len s)))"

definition blur_sno2 :: "mesh_env \<Rightarrow> nat \<Rightarrow> blur_sums \<Rightarrow> float3" where
  "blur_sno2 env vertex0 s =
     (let n = normalize_v3 (sno2 s)
      in if dot_v3v3 n n = 0 then vert_normal env vertex0 else n)"

definition blur_vec :: "mesh_env \<Rightarrow> nat \<Rightarrow> blur_sums \<Rightarrow> float3" where
  "blur_vec env vertex0 s = sub_v3 (blur_sco1 env vertex0 s) (blur_sco2 env vertex0 s)"

text \<open>
  \<^verbatim>\<open>factor_sum\<close> before \<^verbatim>\<open>calc_cavity_factor\<close>: the displacement of the two centroids along
  the inner normal, over the mean distance. The quotient is a real when the mean distance
  is not zero.
\<close>

definition cavity_raw :: "mesh_env \<Rightarrow> int \<Rightarrow> nat \<Rightarrow> real" where
  "cavity_raw env steps vertex0 =
     (let s = cavity_blur_gather env steps vertex0
      in dot_v3v3 (blur_vec env vertex0 s) (blur_sno2 env vertex0 s) / blur_len1_sum s)"

text \<open>\<^verbatim>\<open>calc_blurred_cavity\<close>: the value it stores for the vertex, and the store.\<close>

definition blurred_cavity_value :: "mesh_env \<Rightarrow> cache \<Rightarrow> int \<Rightarrow> nat \<Rightarrow> real" where
  "blurred_cavity_value env automasking steps vertex0 =
     calc_cavity_factor automasking (cavity_raw env steps vertex0)"

definition calc_blurred_cavity ::
  "mesh_env \<Rightarrow> cache \<Rightarrow> sculpt_session \<Rightarrow> int \<Rightarrow> nat \<Rightarrow> sculpt_session option" where
  "calc_blurred_cavity env automasking ss steps vertex0 =
     (case attr_set (attrs_automasking_cavity ss) vertex0
             (blurred_cavity_value env automasking steps vertex0) of
        None \<Rightarrow> None
      | Some buf \<Rightarrow> Some (ss\<lparr>attrs_automasking_cavity := Some buf\<rparr>))"

text \<open>\<^verbatim>\<open>calc_cavity_factor(depsgraph, automasking, object, vertex)\<close>.\<close>

definition calc_cavity_factor_vert ::
  "mesh_env \<Rightarrow> cache \<Rightarrow> sculpt_session \<Rightarrow> nat \<Rightarrow> (real \<times> sculpt_session) option" where
  "calc_cavity_factor_vert env automasking ss vertex0 =
     (case attr_get (attrs_automasking_stroke_id ss) vertex0 of
        None \<Rightarrow> None
      | Some stroke_id \<Rightarrow>
          (case (if stroke_id \<noteq> current_stroke_id automasking
                 then calc_blurred_cavity env automasking ss
                        (cavity_blur_steps (settings automasking)) vertex0
                 else Some ss) of
             None \<Rightarrow> None
           | Some ss1 \<Rightarrow>
               (case attr_get (attrs_automasking_cavity ss1) vertex0 of
                  None \<Rightarrow> None
                | Some factor \<Rightarrow>
                    (let inverted = (BRUSH_AUTOMASKING_CAVITY_INVERTED \<in> flags (settings automasking))
                     in if flag_test (flags (settings automasking)) BRUSH_AUTOMASKING_CAVITY_ALL
                           \<and> flag_test (flags (settings automasking)) {BRUSH_AUTOMASKING_CAVITY_USE_CURVE}
                        then (case cavity_curve (settings automasking) of
                                None \<Rightarrow> None
                              | Some curve \<Rightarrow>
                                  (let factor1 = (if inverted then 1 - factor else factor);
                                       factor2 = cm_evaluateF curve factor1
                                   in Some (if inverted then 1 - factor2 else factor2, ss1)))
                        else Some (factor, ss1)))))"

subsection \<open>The factor query\<close>

text \<open>
  \<^verbatim>\<open>factor_get\<close>, in parts: the brush normal factor it starts with
  (\<open>factor_get_mask\<close>), the branch that reads the factor buffer (\<open>factor_get_cached\<close>),
  and the branch that computes every mode per query (\<open>factor_get_live\<close>), whose four
  tests that return 0 without a stamp are \<open>factor_get_excluded\<close> and whose end, from the
  view normal factor on, is \<open>factor_get_live_tail\<close>.
\<close>

definition factor_get_mask :: "mesh_env \<Rightarrow> cache \<Rightarrow> sculpt_session \<Rightarrow> nat \<Rightarrow> float3 option \<Rightarrow> real option" where
  "factor_get_mask env automasking ss vert orig_normal =
     (if (ss_cache ss \<noteq> None \<or> ss_filter_cache ss \<noteq> None)
          \<and> flag_test (flags (settings automasking)) {BRUSH_AUTOMASKING_BRUSH_NORMAL}
      then map_option (\<lambda>f. 1 * f) (calc_brush_normal_factor env automasking ss vert orig_normal)
      else Some 1)"

definition factor_get_cached ::
  "mesh_env \<Rightarrow> cache \<Rightarrow> sculpt_session \<Rightarrow> nat \<Rightarrow> real \<Rightarrow> (real \<times> sculpt_session) option" where
  "factor_get_cached env automasking ss vert msk =
     (case attr_get (attrs_automasking_factor ss) vert of
        None \<Rightarrow> None
      | Some factor \<Rightarrow>
          if flag_test (flags (settings automasking)) BRUSH_AUTOMASKING_CAVITY_ALL
          then (case calc_cavity_factor_vert env automasking ss vert of
                  None \<Rightarrow> None
                | Some (c, ss1) \<Rightarrow> automasking_factor_end ss1 automasking vert (factor * c * msk))
          else automasking_factor_end ss automasking vert (factor * msk))"

definition factor_get_excluded :: "mesh_env \<Rightarrow> cache \<Rightarrow> sculpt_session \<Rightarrow> nat \<Rightarrow> bool" where
  "factor_get_excluded env automasking ss vert =
     (if \<not> topology_use_brush_limit (settings automasking)
          \<and> flag_test (flags (settings automasking)) {BRUSH_AUTOMASKING_TOPOLOGY}
          \<and> vert_island_id env vert \<noteq> initial_island_nr (settings automasking)
      then True
      else if flag_test (flags (settings automasking)) {BRUSH_AUTOMASKING_FACE_SETS}
              \<and> \<not> vert_has_face_set env vert (initial_face_set (settings automasking))
      then True
      else if flag_test (flags (settings automasking)) {BRUSH_AUTOMASKING_BOUNDARY_EDGES}
              \<and> vert_is_boundary env vert
      then True
      else if flag_test (flags (settings automasking)) {BRUSH_AUTOMASKING_BOUNDARY_FACE_SETS}
      then (let ignore = (case ss_cache ss of
                            None \<Rightarrow> False
                          | Some c \<Rightarrow>
                              (case sc_brush c of
                                 None \<Rightarrow> False
                               | Some b \<Rightarrow>
                                   br_sculpt_brush_type b = SCULPT_BRUSH_TYPE_DRAW_FACE_SETS
                                   \<and> vert_face_set_get env vert = sc_paint_face_set c))
            in \<not> ignore \<and> \<not> vert_has_unique_face_set env vert)
      else False)"

definition factor_get_live_tail ::
  "mesh_env \<Rightarrow> cache \<Rightarrow> sculpt_session \<Rightarrow> nat \<Rightarrow> float3 option \<Rightarrow> real
     \<Rightarrow> (real \<times> sculpt_session) option" where
  "factor_get_live_tail env automasking ss vert orig_normal msk =
     (case (if (ss_cache ss \<noteq> None \<or> ss_filter_cache ss \<noteq> None)
                \<and> flag_test (flags (settings automasking)) {BRUSH_AUTOMASKING_VIEW_NORMAL}
            then map_option (\<lambda>f. msk * f)
                   (calc_view_normal_factor env automasking ss vert orig_normal)
            else Some msk) of
        None \<Rightarrow> None
      | Some mask1 \<Rightarrow>
          if flag_test (flags (settings automasking)) BRUSH_AUTOMASKING_CAVITY_ALL
          then (case calc_cavity_factor_vert env automasking ss vert of
                  None \<Rightarrow> None
                | Some (c, ss2) \<Rightarrow> automasking_factor_end ss2 automasking vert (mask1 * c))
          else automasking_factor_end ss automasking vert mask1)"

text \<open>
  Without the stroke id attribute the local \<^verbatim>\<open>stroke_id\<close> is \<^verbatim>\<open>uchar(-1)\<close>. The occlusion
  test runs only when both the occlusion and the view normal bit are set.
\<close>

definition factor_get_live ::
  "mesh_env \<Rightarrow> cache \<Rightarrow> sculpt_session \<Rightarrow> nat \<Rightarrow> float3 option \<Rightarrow> real
     \<Rightarrow> (real \<times> sculpt_session) option" where
  "factor_get_live env automasking ss vert orig_normal msk =
     (case (case attrs_automasking_stroke_id ss of
              None \<Rightarrow> Some (- 1)
            | Some buf \<Rightarrow> attr_get (Some buf) vert) of
        None \<Rightarrow> None
      | Some stroke_id \<Rightarrow>
          (case (if {BRUSH_AUTOMASKING_VIEW_OCCLUSION, BRUSH_AUTOMASKING_VIEW_NORMAL}
                      \<subseteq> flags (settings automasking)
                 then calc_view_occlusion_factor env automasking ss vert stroke_id
                 else Some (False, ss)) of
             None \<Rightarrow> None
           | Some (occluded, ss1) \<Rightarrow>
               if occluded then automasking_factor_end ss1 automasking vert 0
               else if factor_get_excluded env automasking ss1 vert then Some (0, ss1)
               else factor_get_live_tail env automasking ss1 vert orig_normal msk))"

definition factor_get ::
  "mesh_env \<Rightarrow> cache \<Rightarrow> sculpt_session \<Rightarrow> nat \<Rightarrow> float3 option \<Rightarrow> (real \<times> sculpt_session) option" where
  "factor_get env automasking ss vert orig_normal =
     (case factor_get_mask env automasking ss vert orig_normal of
        None \<Rightarrow> None
      | Some msk \<Rightarrow>
          if attrs_automasking_factor ss \<noteq> None
          then factor_get_cached env automasking ss vert msk
          else factor_get_live env automasking ss vert orig_normal msk)"

subsection \<open>Loops over index ranges\<close>

text \<open>
  \<^verbatim>\<open>for (int i : IndexRange(n)) body\<close> over a state, where the body may fault: the loop runs
  the body for each index in order and stops at the first fault.
\<close>

fun for_each :: "nat list \<Rightarrow> (nat \<Rightarrow> 's \<Rightarrow> 's option) \<Rightarrow> 's \<Rightarrow> 's option" where
  "for_each [] body s = Some s"
| "for_each (i # is) body s =
     (case body i s of
        None \<Rightarrow> None
      | Some s' \<Rightarrow> for_each is body s')"

subsection \<open>The settings hash\<close>

text \<open>
  \<^verbatim>\<open>BLI_hash_int\<close> and \<^verbatim>\<open>BLI_hash_int_2d\<close> (\<^verbatim>\<open>BLI_hash.h\<close>), the bits of a \<^verbatim>\<open>float\<close> read as
  \<^verbatim>\<open>uint\<close>, and the \<^verbatim>\<open>int\<close> value of a flag word: none is among the sources, so the hash
  takes them as arguments.
\<close>

record hash_env =
  hash_int :: "32 word \<Rightarrow> 32 word"
  hash_int_2d :: "32 word \<Rightarrow> 32 word \<Rightarrow> 32 word"
  float_bits :: "real \<Rightarrow> 32 word"
  flag_bits :: "automasking_flags \<Rightarrow> 32 word"

text \<open>The loop over \<^verbatim>\<open>cm->curve[0 .. totpoint)\<close> in \<^verbatim>\<open>settings_hash\<close>.\<close>

fun hash_curve_points :: "hash_env \<Rightarrow> 32 word \<Rightarrow> curve_point list \<Rightarrow> 32 word" where
  "hash_curve_points h hash [] = hash"
| "hash_curve_points h hash (p # ps) =
     (let hash1 = hash_int_2d h hash (float_bits h (cp_x p));
          hash2 = hash_int_2d h hash1 (float_bits h (cp_y p));
          hash3 = hash_int_2d h hash2 (cp_flag p);
          hash4 = hash_int_2d h hash3 (cp_shorty p)
      in hash_curve_points h hash4 ps)"

definition settings_hash :: "hash_env \<Rightarrow> nat \<Rightarrow> cache \<Rightarrow> 32 word" where
  "settings_hash h totvert automasking =
     (let st = settings automasking;
          hash0 = hash_int h (flag_bits h (flags st));
          hash1 = hash_int_2d h hash0 (of_nat totvert);
          hash2 = (if flag_test (flags st) BRUSH_AUTOMASKING_CAVITY_ALL
                   then (let a = hash_int_2d h hash1 (word_of_int (cavity_blur_steps st));
                             b = hash_int_2d h a (float_bits h (cavity_factor st))
                         in case cavity_curve st of
                              None \<Rightarrow> b
                            | Some curve \<Rightarrow> hash_curve_points h b (cm_curve curve))
                   else hash1);
          hash3 = (if flag_test (flags st) {BRUSH_AUTOMASKING_FACE_SETS}
                   then hash_int_2d h hash2 (word_of_int (initial_face_set st))
                   else hash2);
          hash4 = (if flag_test (flags st) {BRUSH_AUTOMASKING_VIEW_NORMAL}
                   then hash_int_2d h
                          (hash_int_2d h hash3 (float_bits h (view_normal_falloff st)))
                          (float_bits h (view_normal_limit st))
                   else hash3);
          hash5 = (if flag_test (flags st) {BRUSH_AUTOMASKING_BRUSH_NORMAL}
                   then hash_int_2d h
                          (hash_int_2d h hash4 (float_bits h (start_normal_falloff st)))
                          (float_bits h (start_normal_limit st))
                   else hash4)
      in hash5)"

subsection \<open>Precompute calculators\<close>







definition EDGE_DISTANCE_INF :: int where
  "EDGE_DISTANCE_INF = -1"

datatype BoundaryAutomaskMode = Edges | FaceSets

text \<open>The first loop of \<^verbatim>\<open>init_boundary_masking\<close>: distance 0 at the boundary elements.\<close>

definition boundary_seed :: "mesh_env \<Rightarrow> BoundaryAutomaskMode \<Rightarrow> nat \<Rightarrow> int" where
  "boundary_seed env mode i =
     (case mode of
        Edges \<Rightarrow> if vert_is_boundary env i then 0 else EDGE_DISTANCE_INF
      | FaceSets \<Rightarrow> if \<not> vert_has_unique_face_set env i then 0 else EDGE_DISTANCE_INF)"

text \<open>
  The neighbour loop of the second loop, for the vertex \<open>i\<close> in the pass
  \<open>propagation_it\<close>; reading \<^verbatim>\<open>edge_distance[ni.index]\<close> past the array is the fault.
\<close>

fun boundary_relax :: "int \<Rightarrow> nat \<Rightarrow> nat list \<Rightarrow> int list \<Rightarrow> int list option" where
  "boundary_relax propagation_it i [] edge_distance = Some edge_distance"
| "boundary_relax propagation_it i (ni # ns) edge_distance =
     (if ni < length edge_distance
      then boundary_relax propagation_it i ns
             (if edge_distance ! ni = propagation_it
              then edge_distance[i := propagation_it + 1]
              else edge_distance)
      else None)"

definition boundary_pass :: "mesh_env \<Rightarrow> nat \<Rightarrow> int list \<Rightarrow> int list option" where
  "boundary_pass env propagation_it edge_distance =
     for_each [0 ..< vert_count env]
       (\<lambda>i ed. if ed ! i \<noteq> EDGE_DISTANCE_INF then Some ed
                else boundary_relax (int propagation_it) i (vert_neighbors env i) ed)
       edge_distance"

definition boundary_edge_distance ::
  "mesh_env \<Rightarrow> BoundaryAutomaskMode \<Rightarrow> int \<Rightarrow> int list option" where
  "boundary_edge_distance env mode propagation_steps =
     for_each [0 ..< nat propagation_steps] (boundary_pass env)
       (map (boundary_seed env mode) [0 ..< vert_count env])"

text \<open>\<^verbatim>\<open>pow2f\<close> of the BLI headers.\<close>

definition pow2f :: "real \<Rightarrow> real" where
  "pow2f x = x * x"

text \<open>The third loop: the factor of every vertex with a distance is scaled.\<close>

definition boundary_scale :: "int \<Rightarrow> int list \<Rightarrow> nat \<Rightarrow> real list \<Rightarrow> real list option" where
  "boundary_scale propagation_steps edge_distance i buf =
     (if edge_distance ! i = EDGE_DISTANCE_INF then Some buf
      else
        (let p = 1 - real_of_int (edge_distance ! i) / real_of_int propagation_steps;
             edge_boundary_automask = pow2f p
         in case attr_get (Some buf) i of
              None \<Rightarrow> None
            | Some f \<Rightarrow> attr_set (Some buf) i (f * (1 - edge_boundary_automask))))"

definition init_boundary_masking ::
  "mesh_env \<Rightarrow> sculpt_session \<Rightarrow> BoundaryAutomaskMode \<Rightarrow> int \<Rightarrow> sculpt_session option" where
  "init_boundary_masking env ss mode propagation_steps =
     (case boundary_edge_distance env mode propagation_steps of
        None \<Rightarrow> None
      | Some edge_distance \<Rightarrow>
          (case attrs_automasking_factor ss of
             None \<Rightarrow> (if list_all (\<lambda>i. edge_distance ! i = EDGE_DISTANCE_INF) [0 ..< vert_count env]
                      then Some ss else None)
           | Some buf \<Rightarrow>
               (case for_each [0 ..< vert_count env]
                       (boundary_scale propagation_steps edge_distance) buf of
                  None \<Rightarrow> None
                | Some buf1 \<Rightarrow> Some (ss\<lparr>attrs_automasking_factor := Some buf1\<rparr>))))"

text \<open>\<^verbatim>\<open>cache_settings_update\<close>: brush settings before the tool's.\<close>

definition cache_settings_update :: "cache \<Rightarrow> mesh_env \<Rightarrow> sculpt \<Rightarrow> brush option \<Rightarrow> cache" where
  "cache_settings_update automasking env sd br =
     (let st0 = (settings automasking)
                  \<lparr>flags := calc_effective_bits sd br,
                   initial_face_set := active_face_set_get env\<rparr>;
          st1 = (case br of
                   Some b \<Rightarrow>
                     if flag_test (br_automasking_flags b) {BRUSH_AUTOMASKING_VIEW_NORMAL}
                     then st0\<lparr>view_normal_limit := br_automasking_view_normal_limit b,
                              view_normal_falloff := br_automasking_view_normal_falloff b\<rparr>
                     else st0\<lparr>view_normal_limit := sd_automasking_view_normal_limit sd,
                              view_normal_falloff := sd_automasking_view_normal_falloff sd\<rparr>
                 | None \<Rightarrow> st0\<lparr>view_normal_limit := sd_automasking_view_normal_limit sd,
                                view_normal_falloff := sd_automasking_view_normal_falloff sd\<rparr>);
          st2 = (case br of
                   Some b \<Rightarrow>
                     if flag_test (br_automasking_flags b) {BRUSH_AUTOMASKING_BRUSH_NORMAL}
                     then st1\<lparr>start_normal_limit := br_automasking_start_normal_limit b,
                              start_normal_falloff := br_automasking_start_normal_falloff b\<rparr>
                     else st1\<lparr>start_normal_limit := sd_automasking_start_normal_limit sd,
                              start_normal_falloff := sd_automasking_start_normal_falloff sd\<rparr>
                 | None \<Rightarrow> st1\<lparr>start_normal_limit := sd_automasking_start_normal_limit sd,
                                start_normal_falloff := sd_automasking_start_normal_falloff sd\<rparr>);
          st3 = (case br of
                   Some b \<Rightarrow>
                     if flag_test (br_automasking_flags b) BRUSH_AUTOMASKING_CAVITY_ALL
                     then st2\<lparr>cavity_curve := br_automasking_cavity_curve b,
                              cavity_factor := br_automasking_cavity_factor b,
                              cavity_blur_steps := br_automasking_cavity_blur_steps b\<rparr>
                     else st2\<lparr>cavity_curve := sd_automasking_cavity_curve sd,
                              cavity_factor := sd_automasking_cavity_factor sd,
                              cavity_blur_steps := sd_automasking_cavity_blur_steps sd\<rparr>
                 | None \<Rightarrow> st2\<lparr>cavity_curve := sd_automasking_cavity_curve sd,
                                cavity_factor := sd_automasking_cavity_factor sd,
                                cavity_blur_steps := sd_automasking_cavity_blur_steps sd\<rparr>)
      in automasking\<lparr>settings := st3\<rparr>)"





subsection \<open>Cache initialisation\<close>










subsection \<open>Face factors\<close>

text \<open>\<^verbatim>\<open>math::rcp\<close>.\<close>

definition rcp :: "real \<Rightarrow> real" where
  "rcp a = 1 / a"

text \<open>
  \<^verbatim>\<open>corner_verts.slice(faces[f])\<close>: the corners \<open>offsets ! f\<close> up to \<open>offsets ! (f + 1)\<close> of
  the face \<open>f\<close>.
\<close>

definition face_corner_verts :: "nat list \<Rightarrow> nat list \<Rightarrow> nat \<Rightarrow> nat list option" where
  "face_corner_verts faces corner_verts f =
     (if f + 1 < length faces \<and> faces ! f \<le> faces ! (f + 1)
           \<and> faces ! (f + 1) \<le> length corner_verts
      then Some (take (faces ! (f + 1) - faces ! f) (drop (faces ! f) corner_verts))
      else None)"

text \<open>The inner loop of \<^verbatim>\<open>calc_face_factors\<close>: \<^verbatim>\<open>sum += factor_get(..., std::nullopt)\<close>, with \<open>sum_acc\<close> for \<^verbatim>\<open>sum\<close>.\<close>

fun face_factor_sum ::
  "mesh_env \<Rightarrow> cache \<Rightarrow> nat list \<Rightarrow> real \<Rightarrow> sculpt_session \<Rightarrow> (real \<times> sculpt_session) option" where
  "face_factor_sum env automasking [] sum_acc ss = Some (sum_acc, ss)"
| "face_factor_sum env automasking (vert # verts) sum_acc ss =
     (case factor_get env automasking ss vert None of
        None \<Rightarrow> None
      | Some (f, ss1) \<Rightarrow> face_factor_sum env automasking verts (sum_acc + f) ss1)"

definition calc_face_factors_body ::
  "mesh_env \<Rightarrow> cache \<Rightarrow> nat list \<Rightarrow> nat list \<Rightarrow> nat list \<Rightarrow> nat
     \<Rightarrow> real list \<times> sculpt_session \<Rightarrow> (real list \<times> sculpt_session) option" where
  "calc_face_factors_body env automasking faces corner_verts face_indices i p =
     (case face_corner_verts faces corner_verts (face_indices ! i) of
        None \<Rightarrow> None
      | Some face_verts \<Rightarrow>
          (case face_factor_sum env automasking face_verts 0 (snd p) of
             None \<Rightarrow> None
           | Some (sum_acc, ss1) \<Rightarrow>
               (case attr_get (Some (fst p)) i of
                  None \<Rightarrow> None
                | Some f \<Rightarrow>
                    (case attr_set (Some (fst p)) i (f * (sum_acc * rcp (real (length face_verts)))) of
                       None \<Rightarrow> None
                     | Some factors1 \<Rightarrow> Some (factors1, ss1)))))"

definition calc_face_factors ::
  "mesh_env \<Rightarrow> cache \<Rightarrow> nat list \<Rightarrow> nat list \<Rightarrow> nat list \<Rightarrow> real list \<Rightarrow> sculpt_session
     \<Rightarrow> (real list \<times> sculpt_session) option" where
  "calc_face_factors env automasking faces corner_verts face_indices factors ss =
     for_each [0 ..< length face_indices]
       (calc_face_factors_body env automasking faces corner_verts face_indices)
       (factors, ss)"

subsection \<open>Well-formed inputs and derived quantities\<close>



text \<open>The factor \<open>1 - (1 - d / steps)\<^sup>2\<close> of the boundary falloff.\<close>

definition boundary_falloff :: "int \<Rightarrow> int \<Rightarrow> real" where
  "boundary_falloff d steps = 1 - (1 - real_of_int d / real_of_int steps)\<^sup>2"





text \<open>
  The state in which the factor query is made. A factor or cavity buffer holds one value
  of \<open>[0, 1]\<close> per vertex, and the stroke id and occlusion bytes one byte per vertex; the
  cavity modes have the stroke id and cavity attributes, and occlusion with view normal has
  the occlusion attribute, as \<^verbatim>\<open>cache_init\<close> creates them.
\<close>

definition unit_range :: "real \<Rightarrow> bool" where
  "unit_range x = (0 \<le> x \<and> x \<le> 1)"

definition buffers_ok :: "mesh_env \<Rightarrow> cache \<Rightarrow> sculpt_session \<Rightarrow> bool" where
  "buffers_ok env automasking ss =
     ((case attrs_automasking_factor ss of
         None \<Rightarrow> True
       | Some buf \<Rightarrow> length buf = vert_count env \<and> list_all unit_range buf)
      \<and> (case attrs_automasking_stroke_id ss of
            None \<Rightarrow> \<not> flag_test (flags (settings automasking)) BRUSH_AUTOMASKING_CAVITY_ALL
          | Some ids \<Rightarrow> length ids = vert_count env)
      \<and> (case attrs_automasking_cavity ss of
            None \<Rightarrow> \<not> flag_test (flags (settings automasking)) BRUSH_AUTOMASKING_CAVITY_ALL
          | Some cav \<Rightarrow> length cav = vert_count env \<and> list_all unit_range cav)
      \<and> (case attrs_automasking_occlusion ss of
            None \<Rightarrow> \<not> {BRUSH_AUTOMASKING_VIEW_OCCLUSION, BRUSH_AUTOMASKING_VIEW_NORMAL}
                         \<subseteq> flags (settings automasking)
          | Some occ \<Rightarrow> length occ = vert_count env))"

text \<open>
  The cavity curve, where the cache uses one: it is there, and
  \<^verbatim>\<open>BKE_curvemapping_evaluateF\<close> maps \<open>[0, 1]\<close> into \<open>[0, 1]\<close>.
\<close>

definition curve_ok :: "cache \<Rightarrow> bool" where
  "curve_ok automasking =
     (if flag_test (flags (settings automasking)) BRUSH_AUTOMASKING_CAVITY_ALL
         \<and> flag_test (flags (settings automasking)) {BRUSH_AUTOMASKING_CAVITY_USE_CURVE}
      then (case cavity_curve (settings automasking) of
              None \<Rightarrow> False
            | Some curve \<Rightarrow> \<forall>x. unit_range x \<longrightarrow> unit_range (cm_evaluateF curve x))
      else True)"


text \<open>
  The batch of \<^verbatim>\<open>calc_face_factors\<close>: every face of the batch has its corner range inside
  \<open>corner_verts\<close>, at least one corner, and corners that are vertices of the mesh.
\<close>

definition faces_valid :: "mesh_env \<Rightarrow> nat list \<Rightarrow> nat list \<Rightarrow> nat list \<Rightarrow> bool" where
  "faces_valid env faces corner_verts face_indices =
     list_all (\<lambda>f. case face_corner_verts faces corner_verts f of
                      None \<Rightarrow> False
                    | Some face_verts \<Rightarrow>
                        face_verts \<noteq> [] \<and> list_all (\<lambda>v. v < vert_count env) face_verts)
       face_indices"

text \<open>
  The factor query is made in a state and leaves one (it stamps the stroke id and fills
  the cavity and occlusion bytes of the vertex). \<open>factor_queries\<close> is the list of the
  factors that successive queries without an original normal return for the vertices of
  a list, with the state after the last; \<open>face_query_state\<close> is the state in which the
  batch reaches its \<open>i\<close>-th face, after the queries for the corners of the faces before it;
  \<open>face_query_mean\<close> is the arithmetic mean of the queries for the corners of the \<open>i\<close>-th
  face, made in that state.
\<close>

fun factor_queries ::
  "mesh_env \<Rightarrow> cache \<Rightarrow> nat list \<Rightarrow> sculpt_session \<Rightarrow> (real list \<times> sculpt_session) option" where
  "factor_queries env automasking [] ss = Some ([], ss)"
| "factor_queries env automasking (vert # verts) ss =
     (case factor_get env automasking ss vert None of
        None \<Rightarrow> None
      | Some (f, ss1) \<Rightarrow>
          (case factor_queries env automasking verts ss1 of
             None \<Rightarrow> None
           | Some (fs, ss2) \<Rightarrow> Some (f # fs, ss2)))"

fun face_query_state ::
  "mesh_env \<Rightarrow> cache \<Rightarrow> nat list \<Rightarrow> nat list \<Rightarrow> nat list \<Rightarrow> sculpt_session \<Rightarrow> nat
     \<Rightarrow> sculpt_session option" where
  "face_query_state env automasking faces corner_verts face_indices ss 0 = Some ss"
| "face_query_state env automasking faces corner_verts face_indices ss (Suc i) =
     (case face_query_state env automasking faces corner_verts face_indices ss i of
        None \<Rightarrow> None
      | Some s \<Rightarrow>
          (case face_corner_verts faces corner_verts (face_indices ! i) of
             None \<Rightarrow> None
           | Some face_verts \<Rightarrow>
               map_option snd (factor_queries env automasking face_verts s)))"

definition face_query_mean ::
  "mesh_env \<Rightarrow> cache \<Rightarrow> nat list \<Rightarrow> nat list \<Rightarrow> nat list \<Rightarrow> sculpt_session \<Rightarrow> nat
     \<Rightarrow> real option" where
  "face_query_mean env automasking faces corner_verts face_indices ss i =
     (case face_query_state env automasking faces corner_verts face_indices ss i of
        None \<Rightarrow> None
      | Some s \<Rightarrow>
          (case face_corner_verts faces corner_verts (face_indices ! i) of
             None \<Rightarrow> None
           | Some face_verts \<Rightarrow>
               map_option (\<lambda>r. sum_list (fst r) / real (length face_verts))
                 (factor_queries env automasking face_verts s)))"

section \<open>Concrete inputs\<close>

text \<open>A brush and tool settings with no mode enabled; the inputs below change single fields.\<close>

definition ex_brush :: brush where
  "ex_brush =
     \<lparr>br_automasking_flags = {}, br_falloff_shape = PAINT_FALLOFF_SHAPE_SPHERE,
      br_sculpt_brush_type = SCULPT_BRUSH_TYPE_OTHER 0,
      br_automasking_boundary_edges_propagation_steps = 1,
      br_automasking_view_normal_limit = 0, br_automasking_view_normal_falloff = 0,
      br_automasking_start_normal_limit = 0, br_automasking_start_normal_falloff = 0,
      br_automasking_cavity_curve = None, br_automasking_cavity_factor = 1,
      br_automasking_cavity_blur_steps = 0\<rparr>"

definition ex_sd :: sculpt where
  "ex_sd =
     \<lparr>sd_automasking_flags = {}, sd_automasking_boundary_edges_propagation_steps = 1,
      sd_automasking_view_normal_limit = 0, sd_automasking_view_normal_falloff = 0,
      sd_automasking_start_normal_limit = 0, sd_automasking_start_normal_falloff = 0,
      sd_automasking_cavity_curve = None, sd_automasking_cavity_factor = 1,
      sd_automasking_cavity_blur_steps = 0, sd_paint_brush = None\<rparr>"

text \<open>
  A mesh of two vertices joined by an edge, at \<open>(0, 0, 0)\<close> and \<open>(1, 0, 0)\<close>, both with the
  normal \<open>(0, 0, 1)\<close>, without symmetry: a vertex is inside the brush radius when its squared
  distance to the location is below the squared radius.
\<close>

definition ex_env :: mesh_env where
  "ex_env =
     \<lparr>vert_count = 2,
      vert_co = (\<lambda>v. if v = 0 then (0, 0, 0) else (1, 0, 0)),
      vert_normal = (\<lambda>v. (0, 0, 1)),
      vert_neighbors = (\<lambda>v. if v = 0 then [1] else if v = 1 then [0] else []),
      vert_is_boundary = (\<lambda>v. v = 0),
      vert_has_face_set = (\<lambda>v f. True),
      vert_has_unique_face_set = (\<lambda>v. True),
      vert_face_set_get = (\<lambda>v. 1),
      active_face_set_get = 1,
      vert_island_id = (\<lambda>v. 0),
      vert_is_occluded = (\<lambda>v. False),
      stroke_is_dyntopo = False,
      is_vertex_inside_brush_radius_symm =
        (\<lambda>co location radius.
           dot_v3v3 (sub_v3 co location) (sub_v3 co location) < radius * radius)\<rparr>"

text \<open>A session in a stroke of radius \<open>1/2\<close>, with no attribute yet and vertex 0 active.\<close>

definition ex_ss :: sculpt_session where
  "ex_ss =
     \<lparr>ss_cache = Some \<lparr>sc_radius = 1 / 2, sc_brush = None, sc_paint_face_set = 0,
                        sc_initial_normal_symm = (0, 0, 1), sc_view_normal_symm = (0, 0, 1)\<rparr>,
      ss_filter_cache = None, ss_stroke_id = 1, ss_last_automask_stroke_id = 0,
      ss_last_automasking_settings_hash = 0, ss_active_vert_index = 0,
      attrs_automasking_factor = None, attrs_automasking_occlusion = None,
      attrs_automasking_stroke_id = None, attrs_automasking_cavity = None\<rparr>"

text \<open>A grab brush with topology automasking, and the tool settings that hold it.\<close>

definition ex_brush_grab :: brush where
  "ex_brush_grab =
     ex_brush\<lparr>br_automasking_flags := {BRUSH_AUTOMASKING_TOPOLOGY},
              br_sculpt_brush_type := SCULPT_BRUSH_TYPE_GRAB\<rparr>"

definition ex_sd_grab :: sculpt where
  "ex_sd_grab = ex_sd\<lparr>sd_paint_brush := Some ex_brush_grab\<rparr>"

text \<open>The same with a brush of another type, which no radius constrains.\<close>

definition ex_brush_draw :: brush where
  "ex_brush_draw = ex_brush\<lparr>br_automasking_flags := {BRUSH_AUTOMASKING_TOPOLOGY}\<rparr>"

definition ex_sd_draw :: sculpt where
  "ex_sd_draw = ex_sd\<lparr>sd_paint_brush := Some ex_brush_draw\<rparr>"

text \<open>The session with a cavity attribute and stroke id bytes, all zero.\<close>

definition ex_ss_cavity :: sculpt_session where
  "ex_ss_cavity = ex_ss\<lparr>attrs_automasking_cavity := Some [0, 0],
                         attrs_automasking_stroke_id := Some [0, 0]\<rparr>"

text \<open>The session with a factor attribute that holds 1 for both vertices.\<close>

definition ex_ss_factor :: sculpt_session where
  "ex_ss_factor = ex_ss\<lparr>attrs_automasking_factor := Some [1, 1]\<rparr>"

text \<open>
  Hash primitives for the concrete inputs: a multiplicative mix, the float scaled to an
  integer, and the flag word with the bit positions of the DNA header.
\<close>

fun ex_flag_bit :: "automasking_flag \<Rightarrow> nat" where
  "ex_flag_bit BRUSH_AUTOMASKING_TOPOLOGY = 0"
| "ex_flag_bit BRUSH_AUTOMASKING_FACE_SETS = 1"
| "ex_flag_bit BRUSH_AUTOMASKING_BOUNDARY_EDGES = 2"
| "ex_flag_bit BRUSH_AUTOMASKING_BOUNDARY_FACE_SETS = 3"
| "ex_flag_bit BRUSH_AUTOMASKING_CAVITY_NORMAL = 4"
| "ex_flag_bit BRUSH_AUTOMASKING_CAVITY_INVERTED = 5"
| "ex_flag_bit BRUSH_AUTOMASKING_CAVITY_USE_CURVE = 6"
| "ex_flag_bit BRUSH_AUTOMASKING_BRUSH_NORMAL = 8"
| "ex_flag_bit BRUSH_AUTOMASKING_VIEW_NORMAL = 9"
| "ex_flag_bit BRUSH_AUTOMASKING_VIEW_OCCLUSION = 10"

definition ex_hash_env :: hash_env where
  "ex_hash_env =
     \<lparr>hash_int = (\<lambda>k. k * 31 + 7),
      hash_int_2d = (\<lambda>kx ky. kx * 31 + ky),
      float_bits = (\<lambda>f. word_of_int \<lfloor>f * 1024\<rfloor>),
      flag_bits = (\<lambda>fl. \<Sum>x \<in> fl. 2 ^ ex_flag_bit x)\<rparr>"


text \<open>Tool settings with boundary-edge automasking over two propagation steps.\<close>

definition ex_sd_boundary :: sculpt where
  "ex_sd_boundary =
     ex_sd\<lparr>sd_automasking_flags := {BRUSH_AUTOMASKING_BOUNDARY_EDGES},
           sd_automasking_boundary_edges_propagation_steps := 2\<rparr>"


definition ex_brush_paint_boundary :: brush where
  "ex_brush_paint_boundary =
     ex_brush\<lparr>br_automasking_flags := {BRUSH_AUTOMASKING_BOUNDARY_EDGES},
              br_sculpt_brush_type := SCULPT_BRUSH_TYPE_PAINT,
              br_automasking_boundary_edges_propagation_steps := 2\<rparr>"





text \<open>The session with a factor attribute that holds \<open>1/4\<close> and \<open>3/4\<close>.\<close>

definition ex_ss_graded :: sculpt_session where
  "ex_ss_graded = ex_ss\<lparr>attrs_automasking_factor := Some [1 / 4, 3 / 4]\<rparr>"

section \<open>Properties\<close>

subsection \<open>Loops\<close>

lemma for_each_append:
  "for_each (xs @ ys) body s =
     (case for_each xs body s of None \<Rightarrow> None | Some s' \<Rightarrow> for_each ys body s')"
  by (induction xs arbitrary: s) (auto split: option.splits)




subsection \<open>The traversal predicate of the topology flood fill\<close>

lemma fill_topology_accept_eq:
  "fill_topology_accept env sd ss active_vert to_v =
     (fill_topology_use_radius sd ss \<or>
      is_vertex_inside_brush_radius_symm env (vert_co env to_v) (vert_co env active_vert)
        (fill_topology_radius ss))"
  by (simp add: fill_topology_accept_def Let_def)

text \<open>
  C2. The claim: with a radius-constrained brush (grab, thumb or rotate, falloff not tube)
  the predicate accepts a candidate only inside the brush radius of the seed; with any
  other brush it accepts every candidate.

  The code computes \<^verbatim>\<open>use_radius || inside\<close>, the opposite: within a stroke of radius
  \<open>1/2\<close> on the two-vertex mesh, seeded at vertex 0, the candidate at distance 1 is accepted
  with the grab brush and rejected with a brush that no radius constrains.
\<close>

theorem fill_topology_accept_inverted:
  "is_constrained_by_radius (sd_paint_brush ex_sd_grab)
   \<and> ss_cache ex_ss \<noteq> None
   \<and> \<not> is_vertex_inside_brush_radius_symm ex_env (vert_co ex_env 1) (vert_co ex_env 0)
         (fill_topology_radius ex_ss)
   \<and> fill_topology_accept ex_env ex_sd_grab ex_ss 0 1
   \<and> \<not> is_constrained_by_radius (sd_paint_brush ex_sd_draw)
   \<and> \<not> fill_topology_accept ex_env ex_sd_draw ex_ss 0 1"
  by (simp add: fill_topology_accept_def fill_topology_use_radius_def fill_topology_radius_def
        is_constrained_by_radius_def ex_sd_grab_def ex_sd_draw_def ex_brush_grab_def
        ex_brush_draw_def ex_brush_def ex_sd_def ex_ss_def ex_env_def power2_eq_square)

subsection \<open>Cavity of a flat patch\<close>

lemma calc_cavity_factor_zero: "calc_cavity_factor automasking 0 = 1 / 2"
  by (simp add: calc_cavity_factor_def signf_def CLAMP_def Let_def)

text \<open>
  C9. When the displacement between the two ring centroids is orthogonal to the averaged
  normal, \<^verbatim>\<open>calc_blurred_cavity\<close> stores exactly \<open>1/2\<close> for the vertex, whatever the blur step
  count, the cavity strength and the inversion flag of the cache are. The mean distance
  \<^verbatim>\<open>len1_sum\<close>, by which the source divides, is taken not to be zero.
\<close>

theorem cavity_flat_patch_half:
  assumes "attrs_automasking_cavity ss = Some buf" and "v < length buf"
    and "dot_v3v3 (blur_vec env v (cavity_blur_gather env steps v))
           (blur_sno2 env v (cavity_blur_gather env steps v)) = 0"
    and "blur_len1_sum (cavity_blur_gather env steps v) \<noteq> 0"
  shows "\<exists>ss'. calc_blurred_cavity env automasking ss steps v = Some ss'
           \<and> attr_get (attrs_automasking_cavity ss') v = Some (1 / 2)"
  using assms
  by (simp add: calc_blurred_cavity_def blurred_cavity_value_def cavity_raw_def Let_def
        calc_cavity_factor_zero attr_set_def attr_get_def)

lemma ex_gather:
  "cavity_blur_gather ex_env 0 0 =
     \<lparr>sno1 = (0, 0, 2), sno2 = (0, 0, 1), sco1 = (1, 0, 0), sco2 = (0, 0, 0),
      len1_sum = 1, sco1_len = 2, sco2_len = 1\<rparr>"
  by (simp add: cavity_blur_gather_def ex_env_def blur_accumulate_def blur_sums_zero_def
        len_v3v3_def zero_v3_def Let_def)

theorem cavity_flat_patch_half_witness:
  "attrs_automasking_cavity ex_ss_cavity = Some [0, 0] \<and> (0 :: nat) < length [0 :: real, 0]
   \<and> dot_v3v3 (blur_vec ex_env 0 (cavity_blur_gather ex_env 0 0))
        (blur_sno2 ex_env 0 (cavity_blur_gather ex_env 0 0)) = 0
   \<and> blur_len1_sum (cavity_blur_gather ex_env 0 0) \<noteq> 0
   \<and> (\<exists>ss'. calc_blurred_cavity ex_env cache_zero ex_ss_cavity 0 0 = Some ss'
           \<and> attr_get (attrs_automasking_cavity ss') 0 = Some (1 / 2))"
proof -
  have a: "attrs_automasking_cavity ex_ss_cavity = Some [0, 0]"
    by (simp add: ex_ss_cavity_def)
  have b: "(0 :: nat) < length [0 :: real, 0]" by simp
  have c: "dot_v3v3 (blur_vec ex_env 0 (cavity_blur_gather ex_env 0 0))
             (blur_sno2 ex_env 0 (cavity_blur_gather ex_env 0 0)) = 0"
    by (simp add: ex_gather blur_vec_def blur_sno2_def blur_sco1_def blur_sco2_def
          normalize_v3_def Let_def)
  have d: "blur_len1_sum (cavity_blur_gather ex_env 0 0) \<noteq> 0"
    by (simp add: ex_gather blur_len1_sum_def)
  show ?thesis
    using a b c d cavity_flat_patch_half [OF a b c d, of cache_zero] by simp
qed

subsection \<open>Boundary masking\<close>





lemma boundary_falloff_at_boundary: "boundary_falloff 0 steps = 0"
  by (simp add: boundary_falloff_def)

lemma boundary_falloff_at_horizon: "steps \<noteq> 0 \<Longrightarrow> boundary_falloff steps steps = 1"
  by (simp add: boundary_falloff_def)


lemma ex_init_boundary_masking:
  "init_boundary_masking ex_env ex_ss_factor Edges 2
     = Some (ex_ss_factor\<lparr>attrs_automasking_factor := Some [0, 3 / 4]\<rparr>)"
  by (simp add: init_boundary_masking_def boundary_edge_distance_def boundary_pass_def
        boundary_seed_def boundary_scale_def attr_get_def attr_set_def pow2f_def
        EDGE_DISTANCE_INF_def ex_env_def ex_ss_factor_def ex_ss_def numeral_2_eq_2 upt_rec)


subsection \<open>The settings hash\<close>

lemma cache_settings_update_steps:
  "cache_settings_update c env
     (sd\<lparr>sd_automasking_boundary_edges_propagation_steps := k\<rparr>)
     (map_option (\<lambda>b. b\<lparr>br_automasking_boundary_edges_propagation_steps := k'\<rparr>) br)
   = cache_settings_update c env sd br"
  by (cases br) (simp_all add: cache_settings_update_def calc_effective_bits_def Let_def)

text \<open>
  C4, as the code has it. The hash is determined by the flag word, the vertex count and,
  each only under its mode bit, the cavity blur steps, cavity factor and curve control
  points, the initial face set, the view normal falloff and limit, and the brush normal
  falloff and limit. The boundary propagation step count is not a field of the settings:
  changing it, in the tool settings or the brush, leaves the hash of the resolved settings
  as it is.
\<close>

theorem settings_hash_fields:
  assumes "flags (settings a) = flags (settings b)"
    and "flag_test (flags (settings a)) BRUSH_AUTOMASKING_CAVITY_ALL \<Longrightarrow>
           cavity_blur_steps (settings a) = cavity_blur_steps (settings b)
           \<and> cavity_factor (settings a) = cavity_factor (settings b)
           \<and> map_option cm_curve (cavity_curve (settings a))
               = map_option cm_curve (cavity_curve (settings b))"
    and "flag_test (flags (settings a)) {BRUSH_AUTOMASKING_FACE_SETS} \<Longrightarrow>
           initial_face_set (settings a) = initial_face_set (settings b)"
    and "flag_test (flags (settings a)) {BRUSH_AUTOMASKING_VIEW_NORMAL} \<Longrightarrow>
           view_normal_falloff (settings a) = view_normal_falloff (settings b)
           \<and> view_normal_limit (settings a) = view_normal_limit (settings b)"
    and "flag_test (flags (settings a)) {BRUSH_AUTOMASKING_BRUSH_NORMAL} \<Longrightarrow>
           start_normal_falloff (settings a) = start_normal_falloff (settings b)
           \<and> start_normal_limit (settings a) = start_normal_limit (settings b)"
  shows "settings_hash h totvert a = settings_hash h totvert b
         \<and> settings_hash h totvert
             (cache_settings_update c env
                (sd\<lparr>sd_automasking_boundary_edges_propagation_steps := k\<rparr>)
                (map_option (\<lambda>x. x\<lparr>br_automasking_boundary_edges_propagation_steps := k'\<rparr>) br))
           = settings_hash h totvert (cache_settings_update c env sd br)"
proof -
  have cav: "flag_test (flags (settings a)) BRUSH_AUTOMASKING_CAVITY_ALL \<Longrightarrow>
      (case cavity_curve (settings a) of None \<Rightarrow> x | Some curve \<Rightarrow> hash_curve_points h x (cm_curve curve))
    = (case cavity_curve (settings b) of None \<Rightarrow> x | Some curve \<Rightarrow> hash_curve_points h x (cm_curve curve))"
    for x
    using assms(2) by (auto split: option.splits)
  have "settings_hash h totvert a = settings_hash h totvert b"
    using assms cav by (simp add: settings_hash_def Let_def)
  then show ?thesis by (simp add: cache_settings_update_steps)
qed

text \<open>
  C4 as claimed fails: two tool settings that differ in the propagation step count (2 and
  3, which is also the count the boundary pass runs with) resolve to settings of equal hash.
\<close>

theorem settings_hash_ignores_propagation_steps:
  "sd_automasking_boundary_edges_propagation_steps ex_sd_boundary
     \<noteq> sd_automasking_boundary_edges_propagation_steps
         (ex_sd_boundary\<lparr>sd_automasking_boundary_edges_propagation_steps := 3\<rparr>)
   \<and> boundary_propagation_steps ex_sd_boundary None
     \<noteq> boundary_propagation_steps
         (ex_sd_boundary\<lparr>sd_automasking_boundary_edges_propagation_steps := 3\<rparr>) None
   \<and> settings_hash ex_hash_env (vert_count ex_env)
       (cache_settings_update cache_zero ex_env ex_sd_boundary None)
     = settings_hash ex_hash_env (vert_count ex_env)
         (cache_settings_update cache_zero ex_env
            (ex_sd_boundary\<lparr>sd_automasking_boundary_edges_propagation_steps := 3\<rparr>) None)"
  by (simp add: ex_sd_boundary_def ex_sd_def boundary_propagation_steps_def
        cache_settings_update_def calc_effective_bits_def Let_def)

theorem settings_hash_fields_witness:
  "flags (settings (cache_zero\<lparr>settings := (settings cache_zero)
              \<lparr>flags := {BRUSH_AUTOMASKING_FACE_SETS}, view_normal_limit := 1\<rparr>\<rparr>))
     = flags (settings (cache_zero\<lparr>settings := (settings cache_zero)
              \<lparr>flags := {BRUSH_AUTOMASKING_FACE_SETS}\<rparr>, can_reuse_mask := True\<rparr>))
   \<and> \<not> flag_test {BRUSH_AUTOMASKING_FACE_SETS} BRUSH_AUTOMASKING_CAVITY_ALL
   \<and> \<not> flag_test {BRUSH_AUTOMASKING_FACE_SETS} {BRUSH_AUTOMASKING_VIEW_NORMAL}
   \<and> \<not> flag_test {BRUSH_AUTOMASKING_FACE_SETS} {BRUSH_AUTOMASKING_BRUSH_NORMAL}
   \<and> settings_hash ex_hash_env 2
         (cache_zero\<lparr>settings := (settings cache_zero)
              \<lparr>flags := {BRUSH_AUTOMASKING_FACE_SETS}, view_normal_limit := 1\<rparr>\<rparr>)
       = settings_hash ex_hash_env 2
           (cache_zero\<lparr>settings := (settings cache_zero)
              \<lparr>flags := {BRUSH_AUTOMASKING_FACE_SETS}\<rparr>, can_reuse_mask := True\<rparr>)
   \<and> settings_hash ex_hash_env 2
         (cache_settings_update cache_zero ex_env
            (ex_sd_boundary\<lparr>sd_automasking_boundary_edges_propagation_steps := 5\<rparr>)
            (map_option (\<lambda>x. x\<lparr>br_automasking_boundary_edges_propagation_steps := 7\<rparr>)
               (Some ex_brush_paint_boundary)))
       = settings_hash ex_hash_env 2
           (cache_settings_update cache_zero ex_env ex_sd_boundary (Some ex_brush_paint_boundary))"
  using settings_hash_fields
    [of "cache_zero\<lparr>settings := (settings cache_zero)
              \<lparr>flags := {BRUSH_AUTOMASKING_FACE_SETS}, view_normal_limit := 1\<rparr>\<rparr>"
        "cache_zero\<lparr>settings := (settings cache_zero)
              \<lparr>flags := {BRUSH_AUTOMASKING_FACE_SETS}\<rparr>, can_reuse_mask := True\<rparr>"
        ex_hash_env 2 cache_zero ex_env 5 ex_sd_boundary 7 "Some ex_brush_paint_boundary"]
  by (simp add: cache_zero_def flag_test_def BRUSH_AUTOMASKING_CAVITY_ALL_def)


subsection \<open>Cache initialisation: the factor buffer\<close>




subsection \<open>Cache initialisation: what the precompute steps keep\<close>

















subsection \<open>Cache initialisation: reuse of the previous mask\<close>




subsection \<open>Cache initialisation on the concrete inputs\<close>















subsection \<open>Cache initialisation: the reuse rule on concrete inputs\<close>









subsection \<open>Cache initialisation: the initial value and the topology seed\<close>





subsection \<open>Cache initialisation: the topology seed on concrete inputs\<close>










subsection \<open>The range of the factor query\<close>

lemma unit_range_simps [simp]: "unit_range 0" "unit_range 1"
  by (simp_all add: unit_range_def)

lemma smoothstep_unit:
  fixes t :: real
  assumes "0 \<le> t" and "t \<le> 1"
  shows "unit_range (t * t * (3 - 2 * t))"
proof -
  have "0 \<le> t * t * (3 - 2 * t)" using assms by simp
  moreover have "1 - t * t * (3 - 2 * t) = (1 - t) * (1 - t) * (1 + 2 * t)"
    by (simp add: algebra_simps)
  moreover have "0 \<le> (1 - t) * (1 - t) * (1 + 2 * t)" using assms by simp
  ultimately show ?thesis by (simp add: unit_range_def)
qed

lemma normal_calc_unit:
  "unit_range (normal_calc env vertex normal limit_lower limit_upper orig_normal)"
proof -
  define angle where "angle = safe_acosf (dot_v3v3 normal
      (case orig_normal of Some n \<Rightarrow> n | None \<Rightarrow> vert_normal env vertex))"
  show ?thesis
  proof (cases "angle > limit_lower \<and> angle < limit_upper")
    case True
    define t where "t = 1 - (angle - limit_lower) / (limit_upper - limit_lower)"
    have "0 \<le> (angle - limit_lower) / (limit_upper - limit_lower)"
      using True by simp
    moreover have "(angle - limit_lower) / (limit_upper - limit_lower) \<le> 1"
      using True by simp
    ultimately have "0 \<le> t" "t \<le> 1" by (simp_all add: t_def)
    then have "unit_range (t * t * (3 - 2 * t))" by (rule smoothstep_unit)
    then show ?thesis
      using True unfolding normal_calc_def Let_def angle_def [symmetric] t_def
      by simp
  next
    case False
    then have "normal_calc env vertex normal limit_lower limit_upper orig_normal
               = (if angle > limit_upper then 0 else 1)"
      unfolding normal_calc_def Let_def angle_def [symmetric] by presburger
    then show ?thesis by simp
  qed
qed

lemma unit_range_mult: "unit_range a \<Longrightarrow> unit_range b \<Longrightarrow> unit_range (a * b)"
  by (simp add: unit_range_def mult_le_one)

lemma unit_range_compl: "unit_range a \<Longrightarrow> unit_range (1 - a)"
  by (simp add: unit_range_def)

lemma calc_cavity_factor_unit: "unit_range (calc_cavity_factor automasking x)"
  by (simp add: calc_cavity_factor_def CLAMP_def Let_def unit_range_def)

lemma calc_brush_normal_factor_unit:
  assumes "ss_cache ss \<noteq> None \<or> ss_filter_cache ss \<noteq> None"
  shows "\<exists>m. calc_brush_normal_factor env automasking ss vert orig_normal = Some m
           \<and> unit_range m"
proof (cases "ss_cache ss")
  case (Some c)
  then show ?thesis
    using normal_calc_unit by (simp add: calc_brush_normal_factor_def Let_def)
next
  case None
  then obtain f where "ss_filter_cache ss = Some f" using assms by auto
  then show ?thesis
    using None normal_calc_unit by (simp add: calc_brush_normal_factor_def Let_def)
qed

lemma calc_view_normal_factor_unit:
  assumes "ss_cache ss \<noteq> None \<or> ss_filter_cache ss \<noteq> None"
  shows "\<exists>m. calc_view_normal_factor env automasking ss vert orig_normal = Some m
           \<and> unit_range m"
proof (cases "ss_cache ss")
  case (Some c)
  then show ?thesis
    using normal_calc_unit by (simp add: calc_view_normal_factor_def Let_def)
next
  case None
  then obtain f where "ss_filter_cache ss = Some f" using assms by auto
  then show ?thesis
    using None normal_calc_unit by (simp add: calc_view_normal_factor_def Let_def)
qed

lemma factor_get_mask_unit:
  "\<exists>m. factor_get_mask env automasking ss vert orig_normal = Some m \<and> unit_range m"
proof (cases "(ss_cache ss \<noteq> None \<or> ss_filter_cache ss \<noteq> None)
          \<and> flag_test (flags (settings automasking)) {BRUSH_AUTOMASKING_BRUSH_NORMAL}")
  case False
  then have "factor_get_mask env automasking ss vert orig_normal = Some 1"
    unfolding factor_get_mask_def by presburger
  then show ?thesis by simp
next
  case True
  then obtain m where "calc_brush_normal_factor env automasking ss vert orig_normal = Some m"
    "unit_range m"
    using calc_brush_normal_factor_unit by blast
  then show ?thesis using True by (simp add: factor_get_mask_def)
qed

lemma list_all_update:
  "list_all P xs \<Longrightarrow> P x \<Longrightarrow> list_all P (xs[i := x])"
  by (induction xs arbitrary: i) (auto split: nat.splits)


lemma automasking_factor_end_ok:
  assumes "buffers_ok env automasking ss" and "vert < vert_count env"
  shows "\<exists>ss'. automasking_factor_end ss automasking vert val = Some (val, ss')
           \<and> buffers_ok env automasking ss'"
proof (cases "attrs_automasking_stroke_id ss")
  case None
  then show ?thesis using assms(1) by (simp add: automasking_factor_end_def)
next
  case (Some ids)
  then have len: "length ids = vert_count env"
    using assms(1) by (simp add: buffers_ok_def)
  let ?ss = "ss\<lparr>attrs_automasking_stroke_id := Some (ids[vert := current_stroke_id automasking])\<rparr>"
  have "automasking_factor_end ss automasking vert val = Some (val, ?ss)"
    using Some len assms(2) by (simp add: automasking_factor_end_def attr_set_def)
  moreover have "buffers_ok env automasking ?ss"
    using assms(1) len by (simp add: buffers_ok_def)
  ultimately show ?thesis by blast
qed

lemma calc_view_occlusion_factor_ok:
  assumes "buffers_ok env automasking ss" and "vert < vert_count env"
    and "{BRUSH_AUTOMASKING_VIEW_OCCLUSION, BRUSH_AUTOMASKING_VIEW_NORMAL}
           \<subseteq> flags (settings automasking)"
  shows "\<exists>b ss'. calc_view_occlusion_factor env automasking ss vert stroke_id = Some (b, ss')
           \<and> buffers_ok env automasking ss'"
proof -
  obtain occ where occ: "attrs_automasking_occlusion ss = Some occ" "length occ = vert_count env"
    using assms(1,3) by (cases "attrs_automasking_occlusion ss") (simp_all add: buffers_ok_def)
  show ?thesis
  proof (cases "stroke_id \<noteq> current_stroke_id automasking")
    case False
    then have "calc_view_occlusion_factor env automasking ss vert stroke_id
                 = Some (occ ! vert = 2, ss)"
      using occ assms(2) by (simp add: calc_view_occlusion_factor_def attr_get_def)
    then show ?thesis using assms(1) by blast
  next
    case True
    let ?f = "if vert_is_occluded env vert then 2 else 1 :: 8 word"
    let ?ss = "ss\<lparr>attrs_automasking_occlusion := Some (occ[vert := ?f])\<rparr>"
    have "calc_view_occlusion_factor env automasking ss vert stroke_id = Some (?f = 2, ?ss)"
      using True occ assms(2)
      by (simp add: calc_view_occlusion_factor_def attr_get_def attr_set_def Let_def)
    moreover have "buffers_ok env automasking ?ss"
      using assms(1) occ by (simp add: buffers_ok_def)
    ultimately show ?thesis by blast
  qed
qed

lemma calc_cavity_factor_vert_ok:
  assumes ok: "buffers_ok env automasking ss" and v: "vert < vert_count env"
    and cav: "flag_test (flags (settings automasking)) BRUSH_AUTOMASKING_CAVITY_ALL"
    and curve: "curve_ok automasking"
  shows "\<exists>c ss'. calc_cavity_factor_vert env automasking ss vert = Some (c, ss')
           \<and> unit_range c \<and> buffers_ok env automasking ss'"
proof -
  obtain ids where ids: "attrs_automasking_stroke_id ss = Some ids" "length ids = vert_count env"
    using ok cav by (cases "attrs_automasking_stroke_id ss") (simp_all add: buffers_ok_def)
  obtain cv where cv: "attrs_automasking_cavity ss = Some cv" "length cv = vert_count env"
    "list_all unit_range cv"
    using ok cav by (cases "attrs_automasking_cavity ss") (simp_all add: buffers_ok_def)
  define x where "x = blurred_cavity_value env automasking
                        (cavity_blur_steps (settings automasking)) vert"
  define ss1 where "ss1 = (if ids ! vert \<noteq> current_stroke_id automasking
                           then ss\<lparr>attrs_automasking_cavity := Some (cv[vert := x])\<rparr> else ss)"
  define factor where "factor = (if ids ! vert \<noteq> current_stroke_id automasking
                           then x else cv ! vert)"
  have x: "unit_range x"
    unfolding x_def blurred_cavity_value_def by (rule calc_cavity_factor_unit)
  have s1: "(if ids ! vert \<noteq> current_stroke_id automasking
             then calc_blurred_cavity env automasking ss
                    (cavity_blur_steps (settings automasking)) vert
             else Some ss) = Some ss1"
    using cv v by (simp add: ss1_def calc_blurred_cavity_def attr_set_def x_def)
  have ok1: "buffers_ok env automasking ss1"
    using ok cv x by (simp add: ss1_def buffers_ok_def list_all_update)
  have f1: "attr_get (attrs_automasking_cavity ss1) vert = Some factor"
    using cv v by (simp add: ss1_def factor_def attr_get_def)
  have "unit_range (cv ! vert)"
    using cv v by (simp add: list_all_length)
  then have fr: "unit_range factor" using x by (simp add: factor_def)
  have g: "attr_get (attrs_automasking_stroke_id ss) vert = Some (ids ! vert)"
    using ids v by (simp add: attr_get_def)
  show ?thesis
  proof (cases "flag_test (flags (settings automasking)) {BRUSH_AUTOMASKING_CAVITY_USE_CURVE}")
    case False
    have "calc_cavity_factor_vert env automasking ss vert = Some (factor, ss1)"
      unfolding calc_cavity_factor_vert_def g option.case s1 f1 Let_def
      using False by simp
    then show ?thesis using fr ok1 by blast
  next
    case True
    then obtain cm where cm: "cavity_curve (settings automasking) = Some cm"
      "\<forall>x. unit_range x \<longrightarrow> unit_range (cm_evaluateF cm x)"
      using curve cav by (cases "cavity_curve (settings automasking)") (simp_all add: curve_ok_def)
    define inverted where
      "inverted = (BRUSH_AUTOMASKING_CAVITY_INVERTED \<in> flags (settings automasking))"
    define c where "c = (if inverted then 1 - cm_evaluateF cm (1 - factor)
                         else cm_evaluateF cm factor)"
    have "calc_cavity_factor_vert env automasking ss vert = Some (c, ss1)"
      unfolding calc_cavity_factor_vert_def g option.case s1 f1 Let_def
      using True cav cm(1) by (simp add: c_def inverted_def)
    moreover have "unit_range c"
      using cm(2) fr unit_range_compl by (simp add: c_def)
    ultimately show ?thesis using ok1 by blast
  qed
qed


lemma factor_get_cached_ok:
  assumes ok: "buffers_ok env automasking ss" and v: "vert < vert_count env"
    and curve: "curve_ok automasking"
    and buf: "attrs_automasking_factor ss \<noteq> None" and m: "unit_range msk"
  shows "\<exists>f ss'. factor_get_cached env automasking ss vert msk = Some (f, ss')
           \<and> unit_range f \<and> buffers_ok env automasking ss'"
proof -
  obtain fb where fb: "attrs_automasking_factor ss = Some fb" "length fb = vert_count env"
    "list_all unit_range fb"
    using ok buf by (cases "attrs_automasking_factor ss") (simp_all add: buffers_ok_def)
  have g: "attr_get (attrs_automasking_factor ss) vert = Some (fb ! vert)"
    using fb v by (simp add: attr_get_def)
  have fr: "unit_range (fb ! vert)"
    using fb v by (simp add: list_all_length)
  show ?thesis
  proof (cases "flag_test (flags (settings automasking)) BRUSH_AUTOMASKING_CAVITY_ALL")
    case False
    obtain ss' where
      "automasking_factor_end ss automasking vert (fb ! vert * msk) = Some (fb ! vert * msk, ss')"
      "buffers_ok env automasking ss'"
      using automasking_factor_end_ok [OF ok v] by blast
    moreover have "factor_get_cached env automasking ss vert msk
                     = automasking_factor_end ss automasking vert (fb ! vert * msk)"
      unfolding factor_get_cached_def g using False by simp
    ultimately show ?thesis using unit_range_mult [OF fr m] by auto
  next
    case True
    obtain c ss1 where c: "calc_cavity_factor_vert env automasking ss vert = Some (c, ss1)"
      "unit_range c" "buffers_ok env automasking ss1"
      using calc_cavity_factor_vert_ok [OF ok v True curve] by blast
    obtain ss' where
      "automasking_factor_end ss1 automasking vert (fb ! vert * c * msk)
         = Some (fb ! vert * c * msk, ss')"
      "buffers_ok env automasking ss'"
      using automasking_factor_end_ok [OF c(3) v] by blast
    moreover have "factor_get_cached env automasking ss vert msk
                     = automasking_factor_end ss1 automasking vert (fb ! vert * c * msk)"
      unfolding factor_get_cached_def g using True c(1) by simp
    moreover have "unit_range (fb ! vert * c * msk)"
      using fr c(2) m by (intro unit_range_mult)
    ultimately show ?thesis by auto
  qed
qed

lemma factor_get_live_tail_ok:
  assumes ok: "buffers_ok env automasking ss" and v: "vert < vert_count env"
    and curve: "curve_ok automasking" and m: "unit_range msk"
  shows "\<exists>f ss'. factor_get_live_tail env automasking ss vert orig_normal msk = Some (f, ss')
           \<and> unit_range f \<and> buffers_ok env automasking ss'"
proof -
  have "\<exists>mask1. (if (ss_cache ss \<noteq> None \<or> ss_filter_cache ss \<noteq> None)
                      \<and> flag_test (flags (settings automasking)) {BRUSH_AUTOMASKING_VIEW_NORMAL}
                   then map_option (\<lambda>f. msk * f)
                          (calc_view_normal_factor env automasking ss vert orig_normal)
                   else Some msk) = Some mask1 \<and> unit_range mask1"
  proof (cases "(ss_cache ss \<noteq> None \<or> ss_filter_cache ss \<noteq> None)
                  \<and> flag_test (flags (settings automasking)) {BRUSH_AUTOMASKING_VIEW_NORMAL}")
    case False
    then have "(if (ss_cache ss \<noteq> None \<or> ss_filter_cache ss \<noteq> None)
                   \<and> flag_test (flags (settings automasking)) {BRUSH_AUTOMASKING_VIEW_NORMAL}
                then map_option (\<lambda>f. msk * f)
                       (calc_view_normal_factor env automasking ss vert orig_normal)
                else Some msk) = Some msk"
      by presburger
    then show ?thesis using m by blast
  next
    case True
    then obtain f where "calc_view_normal_factor env automasking ss vert orig_normal = Some f"
      "unit_range f"
      using calc_view_normal_factor_unit by blast
    then show ?thesis using True m unit_range_mult by simp
  qed
  then obtain mask1 where mask1:
    "(if (ss_cache ss \<noteq> None \<or> ss_filter_cache ss \<noteq> None)
         \<and> flag_test (flags (settings automasking)) {BRUSH_AUTOMASKING_VIEW_NORMAL}
      then map_option (\<lambda>f. msk * f)
             (calc_view_normal_factor env automasking ss vert orig_normal)
      else Some msk) = Some mask1" "unit_range mask1"
    by blast
  show ?thesis
  proof (cases "flag_test (flags (settings automasking)) BRUSH_AUTOMASKING_CAVITY_ALL")
    case False
    obtain ss' where
      "automasking_factor_end ss automasking vert mask1 = Some (mask1, ss')"
      "buffers_ok env automasking ss'"
      using automasking_factor_end_ok [OF ok v] by blast
    moreover have "factor_get_live_tail env automasking ss vert orig_normal msk
                     = automasking_factor_end ss automasking vert mask1"
      unfolding factor_get_live_tail_def mask1(1) using False by simp
    ultimately show ?thesis using mask1(2) by auto
  next
    case True
    obtain c ss1 where c: "calc_cavity_factor_vert env automasking ss vert = Some (c, ss1)"
      "unit_range c" "buffers_ok env automasking ss1"
      using calc_cavity_factor_vert_ok [OF ok v True curve] by blast
    obtain ss' where
      "automasking_factor_end ss1 automasking vert (mask1 * c) = Some (mask1 * c, ss')"
      "buffers_ok env automasking ss'"
      using automasking_factor_end_ok [OF c(3) v] by blast
    moreover have "factor_get_live_tail env automasking ss vert orig_normal msk
                     = automasking_factor_end ss1 automasking vert (mask1 * c)"
      unfolding factor_get_live_tail_def mask1(1) using True c(1) by simp
    moreover have "unit_range (mask1 * c)"
      using mask1(2) c(2) by (rule unit_range_mult)
    ultimately show ?thesis by auto
  qed
qed

lemma factor_get_live_ok:
  assumes ok: "buffers_ok env automasking ss" and v: "vert < vert_count env"
    and curve: "curve_ok automasking" and m: "unit_range msk"
  shows "\<exists>f ss'. factor_get_live env automasking ss vert orig_normal msk = Some (f, ss')
           \<and> unit_range f \<and> buffers_ok env automasking ss'"
proof -
  have "\<exists>stroke_id. (case attrs_automasking_stroke_id ss of
                        None \<Rightarrow> Some (- 1)
                      | Some buf \<Rightarrow> attr_get (Some buf) vert) = Some stroke_id"
  proof (cases "attrs_automasking_stroke_id ss")
    case None
    then show ?thesis by simp
  next
    case (Some ids)
    then have "length ids = vert_count env" using ok by (simp add: buffers_ok_def)
    then show ?thesis using Some v by (simp add: attr_get_def)
  qed
  then obtain stroke_id where sid:
    "(case attrs_automasking_stroke_id ss of
        None \<Rightarrow> Some (- 1)
      | Some buf \<Rightarrow> attr_get (Some buf) vert) = Some stroke_id"
    by blast
  have "\<exists>occluded ss1.
          (if {BRUSH_AUTOMASKING_VIEW_OCCLUSION, BRUSH_AUTOMASKING_VIEW_NORMAL}
                \<subseteq> flags (settings automasking)
           then calc_view_occlusion_factor env automasking ss vert stroke_id
           else Some (False, ss)) = Some (occluded, ss1) \<and> buffers_ok env automasking ss1"
  proof (cases "{BRUSH_AUTOMASKING_VIEW_OCCLUSION, BRUSH_AUTOMASKING_VIEW_NORMAL}
                  \<subseteq> flags (settings automasking)")
    case True
    then have "(if {BRUSH_AUTOMASKING_VIEW_OCCLUSION, BRUSH_AUTOMASKING_VIEW_NORMAL}
                     \<subseteq> flags (settings automasking)
                then calc_view_occlusion_factor env automasking ss vert stroke_id
                else Some (False, ss))
               = calc_view_occlusion_factor env automasking ss vert stroke_id"
      by presburger
    then show ?thesis using calc_view_occlusion_factor_ok [OF ok v True] by presburger
  next
    case False
    then have "(if {BRUSH_AUTOMASKING_VIEW_OCCLUSION, BRUSH_AUTOMASKING_VIEW_NORMAL}
                     \<subseteq> flags (settings automasking)
                then calc_view_occlusion_factor env automasking ss vert stroke_id
                else Some (False, ss)) = Some (False, ss)"
      by presburger
    then show ?thesis using ok by blast
  qed
  then obtain occluded ss1 where occ:
    "(if {BRUSH_AUTOMASKING_VIEW_OCCLUSION, BRUSH_AUTOMASKING_VIEW_NORMAL}
          \<subseteq> flags (settings automasking)
      then calc_view_occlusion_factor env automasking ss vert stroke_id
      else Some (False, ss)) = Some (occluded, ss1)"
    "buffers_ok env automasking ss1"
    by blast
  have unfold: "factor_get_live env automasking ss vert orig_normal msk
      = (if occluded then automasking_factor_end ss1 automasking vert 0
         else if factor_get_excluded env automasking ss1 vert then Some (0, ss1)
         else factor_get_live_tail env automasking ss1 vert orig_normal msk)"
    unfolding factor_get_live_def sid option.case occ(1) by simp
  show ?thesis
  proof (cases occluded)
    case True
    obtain ss' where "automasking_factor_end ss1 automasking vert 0 = Some (0, ss')"
      "buffers_ok env automasking ss'"
      using automasking_factor_end_ok [OF occ(2) v] by blast
    then show ?thesis using True unfold by simp
  next
    case False
    show ?thesis
    proof (cases "factor_get_excluded env automasking ss1 vert")
      case True
      then show ?thesis using False unfold occ(2) by simp
    next
      case nex: False
      then show ?thesis
        using False unfold factor_get_live_tail_ok [OF occ(2) v curve m] by simp
    qed
  qed
qed

lemma factor_get_ok:
  assumes "buffers_ok env automasking ss" and "curve_ok automasking"
    and "vert < vert_count env"
  shows "\<exists>f ss'. factor_get env automasking ss vert orig_normal = Some (f, ss')
           \<and> unit_range f \<and> buffers_ok env automasking ss'"
proof -
  obtain msk where msk: "factor_get_mask env automasking ss vert orig_normal = Some msk"
    "unit_range msk"
    using factor_get_mask_unit by blast
  show ?thesis
  proof (cases "attrs_automasking_factor ss \<noteq> None")
    case True
    then show ?thesis
      using factor_get_cached_ok [OF assms(1,3,2) True msk(2)] msk(1)
      by (simp add: factor_get_def)
  next
    case False
    then show ?thesis
      using factor_get_live_ok [OF assms(1,3,2) msk(2)] msk(1)
      by (simp add: factor_get_def)
  qed
qed



subsection \<open>The face factors\<close>

lemma factor_queries_ok:
  assumes "curve_ok automasking"
  shows "buffers_ok env automasking ss \<Longrightarrow> list_all (\<lambda>v. v < vert_count env) verts
    \<Longrightarrow> \<exists>fs ss'. factor_queries env automasking verts ss = Some (fs, ss')
           \<and> length fs = length verts \<and> list_all unit_range fs
           \<and> buffers_ok env automasking ss'"
proof (induction verts arbitrary: ss)
  case Nil
  then show ?case by simp
next
  case (Cons vert verts)
  have v: "vert < vert_count env" using Cons.prems(2) by simp
  obtain f ss1 where q: "factor_get env automasking ss vert None = Some (f, ss1)"
    "unit_range f" "buffers_ok env automasking ss1"
    using factor_get_ok [OF Cons.prems(1) assms v] by blast
  have "list_all (\<lambda>v. v < vert_count env) verts" using Cons.prems(2) by simp
  then obtain fs ss2 where r: "factor_queries env automasking verts ss1 = Some (fs, ss2)"
    "length fs = length verts" "list_all unit_range fs" "buffers_ok env automasking ss2"
    using Cons.IH [OF q(3)] by blast
  have "factor_queries env automasking (vert # verts) ss = Some (f # fs, ss2)"
    using q(1) r(1) by simp
  then show ?case using q(2) r(2,3,4) by simp
qed

lemma face_factor_sum_queries:
  "factor_queries env automasking verts ss = Some (fs, ss')
   \<Longrightarrow> face_factor_sum env automasking verts sum_acc ss = Some (sum_acc + sum_list fs, ss')"
proof (induction verts arbitrary: ss fs sum_acc)
  case Nil
  then show ?case by simp
next
  case (Cons vert verts)
  obtain f ss1 where q: "factor_get env automasking ss vert None = Some (f, ss1)"
    using Cons.prems by (cases "factor_get env automasking ss vert None") auto
  obtain fs1 where r: "factor_queries env automasking verts ss1 = Some (fs1, ss')" "fs = f # fs1"
    using Cons.prems q by (cases "factor_queries env automasking verts ss1") auto
  show ?case using q r(2) Cons.IH [OF r(1), of "sum_acc + f"] by (simp add: add.assoc)
qed

lemma calc_face_factors_body_mean:
  assumes "face_corner_verts faces corner_verts (face_indices ! i) = Some face_verts"
    and "factor_queries env automasking face_verts ss = Some (fs, ss')"
    and "i < length factors"
  shows "calc_face_factors_body env automasking faces corner_verts face_indices i (factors, ss)
           = Some (factors[i := factors ! i * (sum_list fs / real (length face_verts))], ss')"
  using assms face_factor_sum_queries [OF assms(2), of 0]
  by (simp add: calc_face_factors_body_def attr_get_def attr_set_def rcp_def)


lemma calc_face_factors_loop:
  assumes curve: "curve_ok automasking"
    and valid: "faces_valid env faces corner_verts face_indices"
    and len: "length face_indices \<le> L"
  shows "length factors = L
    \<Longrightarrow> face_query_state env automasking faces corner_verts face_indices ss k = Some s
    \<Longrightarrow> buffers_ok env automasking s
    \<Longrightarrow> \<exists>factors' s'.
          for_each [k ..< length face_indices]
            (calc_face_factors_body env automasking faces corner_verts face_indices)
            (factors, s) = Some (factors', s')
          \<and> length factors' = L \<and> buffers_ok env automasking s'
          \<and> (\<forall>i < L. if k \<le> i \<and> i < length face_indices
                      then \<exists>m. face_query_mean env automasking faces corner_verts face_indices ss i
                                 = Some m
                               \<and> factors' ! i = factors ! i * m
                      else factors' ! i = factors ! i)"
proof (induction "length face_indices - k" arbitrary: k factors s)
  case 0
  then have e: "for_each [k ..< length face_indices]
                  (calc_face_factors_body env automasking faces corner_verts face_indices)
                  (factors, s) = Some (factors, s)"
    by simp
  have "\<not> (k \<le> i \<and> i < length face_indices)" for i using 0(1) by simp
  then have "\<forall>i < L. if k \<le> i \<and> i < length face_indices
                 then \<exists>m. face_query_mean env automasking faces corner_verts face_indices ss i
                            = Some m
                          \<and> factors ! i = factors ! i * m
                 else factors ! i = factors ! i"
    by presburger
  then show ?case using e 0(2,4) by blast
next
  case (Suc n)
  then have kn: "k < length face_indices" by simp
  then have kL: "k < length factors" using len Suc.prems(1) by simp
  have "face_indices ! k \<in> set face_indices" using kn by simp
  then obtain face_verts where fv:
    "face_corner_verts faces corner_verts (face_indices ! k) = Some face_verts"
    "list_all (\<lambda>v. v < vert_count env) face_verts"
    using valid unfolding faces_valid_def list_all_iff
    by (cases "face_corner_verts faces corner_verts (face_indices ! k)") auto
  obtain fs s1 where q: "factor_queries env automasking face_verts s = Some (fs, s1)"
    "buffers_ok env automasking s1"
    using factor_queries_ok [OF curve Suc.prems(3) fv(2)] by blast
  define m where "m = sum_list fs / real (length face_verts)"
  let ?f1 = "factors[k := factors ! k * m]"
  have step: "calc_face_factors_body env automasking faces corner_verts face_indices k (factors, s)
                = Some (?f1, s1)"
    using calc_face_factors_body_mean [OF fv(1) q(1) kL] by (simp add: m_def)
  have st: "face_query_state env automasking faces corner_verts face_indices ss (Suc k) = Some s1"
    using Suc.prems(2) fv(1) q(1) by simp
  have mk: "face_query_mean env automasking faces corner_verts face_indices ss k = Some m"
    using Suc.prems(2) fv(1) q(1) by (simp add: face_query_mean_def m_def)
  have n: "n = length face_indices - Suc k" using Suc.hyps(2) by simp
  have len1: "length ?f1 = L" using Suc.prems(1) by simp
  obtain factors' s' where r:
    "for_each [Suc k ..< length face_indices]
       (calc_face_factors_body env automasking faces corner_verts face_indices)
       (?f1, s1) = Some (factors', s')"
    "length factors' = L" "buffers_ok env automasking s'"
    "\<forall>i < L. if Suc k \<le> i \<and> i < length face_indices
              then \<exists>m. face_query_mean env automasking faces corner_verts face_indices ss i
                         = Some m
                       \<and> factors' ! i = ?f1 ! i * m
              else factors' ! i = ?f1 ! i"
    using Suc.hyps(1) [OF n len1 st q(2)] by blast
  have run: "for_each [k ..< length face_indices]
               (calc_face_factors_body env automasking faces corner_verts face_indices)
               (factors, s) = Some (factors', s')"
    using kn step r(1) by (simp add: upt_conv_Cons)
  have "\<forall>i < L. if k \<le> i \<and> i < length face_indices
                 then \<exists>m. face_query_mean env automasking faces corner_verts face_indices ss i
                            = Some m
                          \<and> factors' ! i = factors ! i * m
                 else factors' ! i = factors ! i"
  proof (intro allI impI)
    fix i assume iL: "i < L"
    show "if k \<le> i \<and> i < length face_indices
          then \<exists>m. face_query_mean env automasking faces corner_verts face_indices ss i = Some m
                   \<and> factors' ! i = factors ! i * m
          else factors' ! i = factors ! i"
    proof (cases "i = k")
      case True
      have "factors' ! k = ?f1 ! k" using r(4) iL True by simp
      then have "factors' ! k = factors ! k * m" using kL by simp
      then show ?thesis using True kn mk by simp
    next
      case False
      then have a: "?f1 ! i = factors ! i" by simp
      have b: "(k \<le> i \<and> i < length face_indices) = (Suc k \<le> i \<and> i < length face_indices)"
        using False by auto
      have "if Suc k \<le> i \<and> i < length face_indices
            then \<exists>m. face_query_mean env automasking faces corner_verts face_indices ss i
                       = Some m
                     \<and> factors' ! i = ?f1 ! i * m
            else factors' ! i = ?f1 ! i"
        using r(4) iL by blast
      then show ?thesis unfolding a b .
    qed
  qed
  then show ?case using run r(2,3) by blast
qed

text \<open>
  C10. For a batch of faces whose corners are vertices of the mesh, in a well-formed state,
  \<^verbatim>\<open>calc_face_factors\<close> returns, and the factor of the \<open>i\<close>-th face of the batch is its input
  factor times the arithmetic mean of the factor queries for the corners of that face,
  each made without an original normal; the factors past the batch are unchanged.
\<close>

theorem calc_face_factors_mean:
  assumes "buffers_ok env automasking ss" and "curve_ok automasking"
    and "faces_valid env faces corner_verts face_indices"
    and "length face_indices \<le> length factors"
  shows "\<exists>factors' ss'.
           calc_face_factors env automasking faces corner_verts face_indices factors ss
             = Some (factors', ss')
           \<and> length factors' = length factors
           \<and> (\<forall>i < length factors.
                 if i < length face_indices
                 then \<exists>m. face_query_mean env automasking faces corner_verts face_indices ss i
                            = Some m
                          \<and> factors' ! i = factors ! i * m
                 else factors' ! i = factors ! i)"
proof -
  have st: "face_query_state env automasking faces corner_verts face_indices ss 0 = Some ss"
    by simp
  obtain factors' s' where r:
    "for_each [0 ..< length face_indices]
       (calc_face_factors_body env automasking faces corner_verts face_indices)
       (factors, ss) = Some (factors', s')"
    "length factors' = length factors"
    "\<forall>i < length factors. if 0 \<le> i \<and> i < length face_indices
              then \<exists>m. face_query_mean env automasking faces corner_verts face_indices ss i
                         = Some m
                       \<and> factors' ! i = factors ! i * m
              else factors' ! i = factors ! i"
    using calc_face_factors_loop [OF assms(2,3,4) refl st assms(1)] by blast
  show ?thesis using r by (simp add: calc_face_factors_def)
qed


theorem calc_face_factors_mean_witness:
  "buffers_ok ex_env cache_zero ex_ss_graded \<and> curve_ok cache_zero
   \<and> faces_valid ex_env [0, 2] [0, 1] [0]
   \<and> length [0 :: nat] \<le> length [1 / 2 :: real]
   \<and> (\<exists>factors' ss'.
          calc_face_factors ex_env cache_zero [0, 2] [0, 1] [0] [1 / 2] ex_ss_graded
            = Some (factors', ss')
          \<and> length factors' = length [1 / 2 :: real]
          \<and> (\<forall>i < length [1 / 2 :: real].
                if i < length [0 :: nat]
                then \<exists>m. face_query_mean ex_env cache_zero [0, 2] [0, 1] [0] ex_ss_graded i
                           = Some m
                         \<and> factors' ! i = [1 / 2] ! i * m
                else factors' ! i = [1 / 2] ! i))"
proof -
  have n: "vert_count ex_env = 2" by (simp add: ex_env_def)
  have a: "buffers_ok ex_env cache_zero ex_ss_graded"
    by (simp add: buffers_ok_def n ex_ss_graded_def ex_ss_def cache_zero_def flag_test_def
          unit_range_def)
  have b: "curve_ok cache_zero"
    by (simp add: curve_ok_def cache_zero_def flag_test_def)
  have c: "faces_valid ex_env [0, 2] [0, 1] [0]"
    by (simp add: faces_valid_def face_corner_verts_def n)
  have d: "length [0 :: nat] \<le> length [1 / 2 :: real]" by simp
  show ?thesis
    using a b c d calc_face_factors_mean [OF a b c d] by blast
qed

end
